theory Spec2Isabelle
  imports Main "HOL-Library.Sublist"
begin

section \<open>JavaScript strings and the built-ins the client calls\<close>

text \<open>
  A JavaScript string is modelled by the bytes of its UTF-8 encoding, as a \<^typ>\<open>string\<close>.
  This covers every well-formed string; a string holding an unpaired surrogate has no
  UTF-8 form and lies outside the model (on such a string \<^verbatim>\<open>encodeURIComponent\<close>
  raises \<^verbatim>\<open>URIError\<close>).

  A JavaScript number that the code only ever prints is represented by the text that
  \<^verbatim>\<open>String(n)\<close> yields for it, so that every number (fractions included) has a
  representative and printing is a projection.
\<close>

datatype number = Number string

fun String' :: "number \<Rightarrow> string" where
  "String' (Number s) = s"

definition hexDigit :: "nat \<Rightarrow> char" where
  "hexDigit n = ''0123456789ABCDEF'' ! (n mod 16)"

definition percentByte :: "char \<Rightarrow> string" where
  "percentByte c = [CHR ''%'', hexDigit (of_char c div 16), hexDigit (of_char c mod 16)]"

definition isAlphaNum :: "char \<Rightarrow> bool" where
  "isAlphaNum c \<longleftrightarrow>
     (let n = (of_char c :: nat)
      in (48 \<le> n \<and> n \<le> 57) \<or> (65 \<le> n \<and> n \<le> 90) \<or> (97 \<le> n \<and> n \<le> 122))"

text \<open>
  \<^verbatim>\<open>encodeURIComponent\<close> leaves the letters, the digits and \<^verbatim>\<open>- _ . ! ~ * ' ( )\<close>
  as they are and writes every other byte of the UTF-8 form as \<^verbatim>\<open>%XX\<close>.
\<close>

definition uriUnreserved :: "char \<Rightarrow> bool" where
  "uriUnreserved c \<longleftrightarrow> isAlphaNum c \<or> c \<in> set ''-_.!~*()'' \<or> c = CHR 0x27"

definition encodeURIComponent :: "string \<Rightarrow> string" where
  "encodeURIComponent s = concat (map (\<lambda>c. if uriUnreserved c then [c] else percentByte c) s)"

text \<open>\<^verbatim>\<open>Array.prototype.join\<close> on an array of strings.\<close>

fun join :: "string \<Rightarrow> string list \<Rightarrow> string" where
  "join sep [] = []"
| "join sep [x] = x"
| "join sep (x # y # ys) = x @ sep @ join sep (y # ys)"

text \<open>
  \<^verbatim>\<open>URLSearchParams\<close>: an ordered list of name-value pairs. \<^verbatim>\<open>append\<close> adds a
  pair at the end; \<^verbatim>\<open>toString\<close> is the \<^verbatim>\<open>application/x-www-form-urlencoded\<close>
  serialiser (a space becomes \<^verbatim>\<open>+\<close>; letters, digits and \<^verbatim>\<open>* - . _\<close> stay; every
  other byte becomes \<^verbatim>\<open>%XX\<close>).
\<close>

type_synonym URLSearchParams = "(string \<times> string) list"

definition append' :: "URLSearchParams \<Rightarrow> string \<Rightarrow> string \<Rightarrow> URLSearchParams" where
  "append' search name' v = search @ [(name', v)]"

definition formByte :: "char \<Rightarrow> string" where
  "formByte c =
     (if c = CHR '' '' then ''+''
      else if isAlphaNum c \<or> c \<in> set ''*-._'' then [c]
      else percentByte c)"

definition formEncode :: "string \<Rightarrow> string" where
  "formEncode s = concat (map formByte s)"

definition toString :: "URLSearchParams \<Rightarrow> string" where
  "toString search = join ''&'' (map (\<lambda>(k, v). formEncode k @ ''='' @ formEncode v) search)"

text \<open>
  The regular expression \<^verbatim>\<open>/^GenieKey\s+/\<close>. The class \<^verbatim>\<open>\s\<close> holds the ASCII
  white space (tab, line feed, vertical tab, form feed, carriage return, space) and
  U+00A0, U+1680, U+2000 to U+200A, U+2028, U+2029, U+202F, U+205F, U+3000 and U+FEFF;
  \<open>whiteSpaceLen\<close> is the number of bytes of the white-space character a string starts
  with, or 0 when it starts with none.
\<close>

definition asciiWhiteSpace :: "char \<Rightarrow> bool" where
  "asciiWhiteSpace c \<longleftrightarrow> (of_char c :: nat) \<in> {9, 10, 11, 12, 13, 32}"

definition whiteSpace3 :: "nat \<Rightarrow> nat \<Rightarrow> nat \<Rightarrow> bool" where
  "whiteSpace3 a b c \<longleftrightarrow>
     (a = 0xE1 \<and> b = 0x9A \<and> c = 0x80) \<or>
     (a = 0xE2 \<and> b = 0x80 \<and> ((0x80 \<le> c \<and> c \<le> 0x8A) \<or> c = 0xA8 \<or> c = 0xA9 \<or> c = 0xAF)) \<or>
     (a = 0xE2 \<and> b = 0x81 \<and> c = 0x9F) \<or>
     (a = 0xE3 \<and> b = 0x80 \<and> c = 0x80) \<or>
     (a = 0xEF \<and> b = 0xBB \<and> c = 0xBF)"

fun whiteSpaceLen :: "string \<Rightarrow> nat" where
  "whiteSpaceLen [] = 0"
| "whiteSpaceLen (a # s) =
     (if asciiWhiteSpace a then 1
      else case s of
        [] \<Rightarrow> 0
      | b # t \<Rightarrow>
          if (of_char a :: nat) = 0xC2 \<and> (of_char b :: nat) = 0xA0 then 2
          else case t of
            [] \<Rightarrow> 0
          | c # _ \<Rightarrow> if whiteSpace3 (of_char a) (of_char b) (of_char c) then 3 else 0)"

fun skipWhiteSpace :: "string \<Rightarrow> string" where
  "skipWhiteSpace [] = []"
| "skipWhiteSpace (a # s) =
     (case whiteSpaceLen (a # s) of
        0 \<Rightarrow> a # s
      | Suc n \<Rightarrow> skipWhiteSpace (drop n s))"

text \<open>
  \<^verbatim>\<open>key.replace(/^GenieKey\s+/, '')\<close>: when the key starts with \<^verbatim>\<open>GenieKey\<close>
  followed by at least one white-space character, that word and the whole run of white
  space after it are removed (the quantifier is greedy); otherwise the key is unchanged.
\<close>

definition replaceGenieKey :: "string \<Rightarrow> string" where
  "replaceGenieKey k =
     (if prefix ''GenieKey'' k \<and> 0 < whiteSpaceLen (drop 8 k)
      then skipWhiteSpace (drop 8 k)
      else k)"

section \<open>JSON values and \<^verbatim>\<open>JSON.stringify\<close>\<close>

datatype json =
    JNull
  | JBool bool
  | JNumber number
  | JString string
  | JArray "json list"
  | JObject "(string \<times> json) list"

definition hexDigitLower :: "nat \<Rightarrow> char" where
  "hexDigitLower n = ''0123456789abcdef'' ! (n mod 16)"

text \<open>
  \<^verbatim>\<open>JSON.stringify\<close> of a string: the double quote and the backslash are escaped,
  the control characters below U+0020 are written \<^verbatim>\<open>\b \t \n \f \r\<close> or
  \<^verbatim>\<open>\u00xx\<close>, every other byte stands for itself.
\<close>

definition quoteJSONChar :: "char \<Rightarrow> string" where
  "quoteJSONChar c =
     (let n = (of_char c :: nat) in
      if n = 0x22 then [CHR 0x5C, CHR 0x22]
      else if n = 0x5C then [CHR 0x5C, CHR 0x5C]
      else if n = 0x08 then [CHR 0x5C, CHR ''b'']
      else if n = 0x09 then [CHR 0x5C, CHR ''t'']
      else if n = 0x0A then [CHR 0x5C, CHR ''n'']
      else if n = 0x0C then [CHR 0x5C, CHR ''f'']
      else if n = 0x0D then [CHR 0x5C, CHR ''r'']
      else if n < 0x20 then [CHR 0x5C, CHR ''u'', CHR ''0'', CHR ''0'', hexDigitLower (n div 16), hexDigitLower n]
      else [c])"

definition quoteJSONString :: "string \<Rightarrow> string" where
  "quoteJSONString s = [CHR 0x22] @ concat (map quoteJSONChar s) @ [CHR 0x22]"

fun JSON_stringify :: "json \<Rightarrow> string" where
  "JSON_stringify JNull = ''null''"
| "JSON_stringify (JBool b) = (if b then ''true'' else ''false'')"
| "JSON_stringify (JNumber n) = String' n"
| "JSON_stringify (JString s) = quoteJSONString s"
| "JSON_stringify (JArray xs) = ''['' @ join '','' (map JSON_stringify xs) @ '']''"
| "JSON_stringify (JObject kvs) =
     ''{'' @ join '','' (map (\<lambda>(k, v). quoteJSONString k @ '':'' @ JSON_stringify v) kvs) @ ''}''"

section \<open>The HTTP adapter: \<^verbatim>\<open>OpsGenieClient.request\<close>\<close>

record OpsGenieClientConfig =
  apiKey :: string
  baseUrl :: "string option"

text \<open>The two private fields of the class, \<^verbatim>\<open>this.apiKey\<close> and \<^verbatim>\<open>this.baseUrl\<close>.\<close>

record OpsGenieClient =
  this_apiKey :: string
  this_baseUrl :: string

text \<open>
  The constructor. \<^verbatim>\<open>config.baseUrl || 'https://api.opsgenie.com'\<close> takes the default
  for an absent and for an empty base URL.
\<close>

definition constructor :: "OpsGenieClientConfig \<Rightarrow> OpsGenieClient" where
  "constructor config =
     \<lparr> this_apiKey = replaceGenieKey (apiKey config),
       this_baseUrl =
         (case baseUrl config of
            None \<Rightarrow> ''https://api.opsgenie.com''
          | Some u \<Rightarrow> if u = [] then ''https://api.opsgenie.com'' else u) \<rparr>"

text \<open>
  A value a JavaScript \<^verbatim>\<open>throw\<close> or a rejected promise carries: an instance of
  \<^verbatim>\<open>Error\<close> (of any subclass) with its message, or any other value.
\<close>

datatype thrown = Error string | NonError json

text \<open>
  The body of a \<^verbatim>\<open>RequestInit\<close>: \<^verbatim>\<open>null\<close>, a string, or one of the object kinds the
  type allows (a buffer, a stream, a blob, \<^verbatim>\<open>URLSearchParams\<close>, form data), here with
  its bytes. An absent field is \<open>None\<close>. The headers are an object with string values:
  the pairs in insertion order.
\<close>

datatype BodyInit = BodyNull | BodyString string | BodyObject string

record RequestInit =
  method' :: "string option"
  body :: "BodyInit option"
  headers :: "(string \<times> string) list option"

text \<open>
  What the adapter reads of the response of \<^verbatim>\<open>fetch\<close>: the status, the status text,
  and what the promises \<^verbatim>\<open>response.text()\<close> and \<^verbatim>\<open>response.json()\<close> settle to (the
  latter at the type the caller of \<^verbatim>\<open>request<T>\<close> expects; the adapter validates
  nothing). \<^verbatim>\<open>response.ok\<close> is the getter of the fetch standard: the status is in the
  range 200 to 299.
\<close>

record 'a Response =
  status :: nat
  statusText :: string
  text' :: "thrown + string"
  json' :: "thrown + 'a"

definition ok :: "'a Response \<Rightarrow> bool" where
  "ok response \<longleftrightarrow> 200 \<le> status response \<and> status response < 300"

datatype 'a Settled = Resolves "'a Response" | Rejects thrown

type_synonym 'a fetch = "string \<Rightarrow> RequestInit \<Rightarrow> 'a Settled"

text \<open>The decimal digits of a natural number: \<^verbatim>\<open>String(n)\<close> for an HTTP status, a length or an index.\<close>

fun digits :: "nat \<Rightarrow> string" where
  "digits n = (if n < 10 then [hexDigit n] else digits (n div 10) @ [hexDigit (n mod 10)])"

text \<open>
  Assignment of a property of an object: the value of an existing key is replaced in
  place, a new key is added at the end. The spread of an object into an object literal
  assigns its properties one after the other.
\<close>

fun assign :: "string \<Rightarrow> string \<Rightarrow> (string \<times> string) list \<Rightarrow> (string \<times> string) list" where
  "assign k v [] = [(k, v)]"
| "assign k v (p # ps) = (if fst p = k then (k, v) # ps else p # assign k v ps)"

definition spread :: "(string \<times> string) list \<Rightarrow> (string \<times> string) list \<Rightarrow> (string \<times> string) list" where
  "spread obj src = fold (\<lambda>(k, v). assign k v) src obj"

text \<open>
  \<^verbatim>\<open>request\<close> returns the calls of \<^verbatim>\<open>fetch\<close> it made (the URL and the options of
  each) together with its outcome: \<open>Inl\<close> what it throws, \<open>Inr\<close> what it returns.
\<close>

type_synonym issued = "(string \<times> RequestInit) list"

definition request :: "OpsGenieClient \<Rightarrow> 'a fetch \<Rightarrow> string \<Rightarrow> RequestInit \<Rightarrow> issued \<times> (thrown + 'a)" where
  "request this fetch endpoint options =
     (let url = this_baseUrl this @ endpoint;
          headers0 =
            spread
              [(''Authorization'', ''GenieKey '' @ this_apiKey this),
               (''Content-Type'', ''application/json'')]
              (case headers options of None \<Rightarrow> [] | Some h \<Rightarrow> h);
          fetchOptions0 = options\<lparr>headers := Some headers0\<rparr>;
          fetchOptions =
            (case body options of
               Some (BodyObject b) \<Rightarrow> fetchOptions0\<lparr>body := None\<rparr>
             | _ \<Rightarrow> fetchOptions0)
      in ([(url, fetchOptions)],
          case fetch url fetchOptions of
            Rejects e \<Rightarrow> Inl e
          | Resolves response \<Rightarrow>
              if \<not> ok response then
                (case text' response of
                   Inl e \<Rightarrow> Inl e
                 | Inr errorText \<Rightarrow>
                     Inl (Error (''OpsGenie API error: '' @ digits (status response) @ '' '' @
                                 statusText response @ '' - '' @ errorText)))
              else json' response))"

text \<open>
  What \<^verbatim>\<open>fetch\<close> sends for the options it is given: the method defaults to
  \<^verbatim>\<open>GET\<close>, and a body goes on the wire when the options hold one that is not
  \<^verbatim>\<open>null\<close>.
\<close>

definition wireMethod :: "RequestInit \<Rightarrow> string" where
  "wireMethod init = (case method' init of None \<Rightarrow> ''GET'' | Some m \<Rightarrow> m)"

definition wireBody :: "RequestInit \<Rightarrow> string option" where
  "wireBody init =
     (case body init of
        None \<Rightarrow> None
      | Some BodyNull \<Rightarrow> None
      | Some (BodyString s) \<Rightarrow> Some s
      | Some (BodyObject b) \<Rightarrow> Some b)"

text \<open>
  The parts of a URL the properties speak of: the query is what stands between the first
  \<^verbatim>\<open>?\<close> and the fragment, as a list of \<^verbatim>\<open>&\<close>-separated parameters; the part
  before it holds the scheme, the host and the path.
\<close>

definition urlBeforeQuery :: "string \<Rightarrow> string" where
  "urlBeforeQuery url = takeWhile (\<lambda>c. c \<noteq> CHR ''?'' \<and> c \<noteq> CHR ''#'') url"

definition urlQuery :: "string \<Rightarrow> string" where
  "urlQuery url = drop 1 (dropWhile (\<lambda>c. c \<noteq> CHR ''?'') (takeWhile (\<lambda>c. c \<noteq> CHR ''#'') url))"

fun splitOn :: "char \<Rightarrow> string \<Rightarrow> string list" where
  "splitOn c [] = [[]]"
| "splitOn c (x # xs) =
     (if x = c then [] # splitOn c xs
      else case splitOn c xs of
        [] \<Rightarrow> [[x]]
      | w # ws \<Rightarrow> (x # w) # ws)"

definition queryParameters :: "string \<Rightarrow> string list" where
  "queryParameters url = (if urlQuery url = [] then [] else splitOn (CHR ''&'') (urlQuery url))"

definition queryKeys :: "string \<Rightarrow> string list" where
  "queryKeys url = map (takeWhile (\<lambda>c. c \<noteq> CHR ''='')) (queryParameters url)"

section \<open>The alert operations of the client\<close>

record AlertCountParams =
  query :: "string option"
  searchIdentifier :: "string option"
  searchIdentifierType :: "string option"

text \<open>
  \<^verbatim>\<open>AlertSearchParams\<close> declares the three fields of \<^verbatim>\<open>AlertCountParams\<close> and four
  more; an absent field is \<open>None\<close>.
\<close>

record AlertSearchParams = AlertCountParams +
  offset :: "number option"
  limit :: "number option"
  sort' :: "string option"
  order :: "string option"

record AlertNotesParams =
  offset' :: "(string + number) option"
  direction :: "string option"
  limit' :: "number option"
  order' :: "string option"

text \<open>
  The two guards of the source: \<^verbatim>\<open>if (v) search.append(name, v)\<close> for a string field
  (an absent and an empty string are both falsy), and
  \<^verbatim>\<open>if (v !== undefined) search.append(name, String(v))\<close> for a numeric one.
\<close>

definition appendIfTruthy :: "string \<Rightarrow> string option \<Rightarrow> URLSearchParams \<Rightarrow> URLSearchParams" where
  "appendIfTruthy name' v search =
     (case v of
        None \<Rightarrow> search
      | Some s \<Rightarrow> if s = [] then search else append' search name' s)"

definition appendIfDefined :: "string \<Rightarrow> string option \<Rightarrow> URLSearchParams \<Rightarrow> URLSearchParams" where
  "appendIfDefined name' v search =
     (case v of
        None \<Rightarrow> search
      | Some s \<Rightarrow> append' search name' s)"

text \<open>The default \<^verbatim>\<open>options = {}\<close> of \<^verbatim>\<open>request\<close>.\<close>

definition noOptions :: RequestInit where
  "noOptions = \<lparr> method' = None, body = None, headers = None \<rparr>"

definition getAlert :: "OpsGenieClient \<Rightarrow> 'a fetch \<Rightarrow> string \<Rightarrow> issued \<times> (thrown + 'a)" where
  "getAlert this fetch identifier =
     request this fetch
       (''/v2/alerts/'' @ encodeURIComponent identifier @ ''?identifierType=id'') noOptions"

text \<open>The \<^verbatim>\<open>URLSearchParams\<close> object that \<^verbatim>\<open>searchAlerts\<close> fills, after its last \<^verbatim>\<open>append\<close>.\<close>

definition searchAlertsSearch :: "AlertSearchParams \<Rightarrow> URLSearchParams" where
  "searchAlertsSearch params =
     (appendIfTruthy ''order'' (order params)
      (appendIfTruthy ''sort'' (sort' params)
      (appendIfDefined ''limit'' (map_option String' (limit params))
      (appendIfDefined ''offset'' (map_option String' (offset params))
      (appendIfTruthy ''searchIdentifierType'' (searchIdentifierType params)
      (appendIfTruthy ''searchIdentifier'' (searchIdentifier params)
      (appendIfTruthy ''query'' (query params) [])))))))"

definition searchAlerts :: "OpsGenieClient \<Rightarrow> 'a fetch \<Rightarrow> AlertSearchParams \<Rightarrow> issued \<times> (thrown + 'a)" where
  "searchAlerts this fetch params =
     request this fetch (''/v2/alerts?'' @ toString (searchAlertsSearch params)) noOptions"

definition countAlertsSearch :: "AlertCountParams \<Rightarrow> URLSearchParams" where
  "countAlertsSearch params =
     (appendIfTruthy ''searchIdentifierType'' (searchIdentifierType params)
      (appendIfTruthy ''searchIdentifier'' (searchIdentifier params)
      (appendIfTruthy ''query'' (query params) [])))"

definition countAlerts :: "OpsGenieClient \<Rightarrow> 'a fetch \<Rightarrow> AlertCountParams \<Rightarrow> issued \<times> (thrown + 'a)" where
  "countAlerts this fetch params =
     request this fetch (''/v2/alerts/count?'' @ toString (countAlertsSearch params)) noOptions"

definition getAlertNotesSearch :: "AlertNotesParams \<Rightarrow> URLSearchParams" where
  "getAlertNotesSearch params =
     append'
      (appendIfTruthy ''order'' (order' params)
      (appendIfDefined ''limit'' (map_option String' (limit' params))
      (appendIfTruthy ''direction'' (direction params)
      (appendIfDefined ''offset''
         (map_option (\<lambda>v. case v of Inl s \<Rightarrow> s | Inr n \<Rightarrow> String' n) (offset' params)) []))))
      ''identifierType'' ''id''"

definition getAlertNotes ::
    "OpsGenieClient \<Rightarrow> 'a fetch \<Rightarrow> string \<Rightarrow> AlertNotesParams \<Rightarrow> issued \<times> (thrown + 'a)" where
  "getAlertNotes this fetch identifier params =
     request this fetch
       (''/v2/alerts/'' @ encodeURIComponent identifier @ ''/notes?'' @
        toString (getAlertNotesSearch params)) noOptions"

text \<open>
  \<^verbatim>\<open>const body: any = {...}; if (note) { body.note = note; }\<close>: the note is added to the
  properties the body starts with when it is a non-empty string.
\<close>

definition withNote :: "(string \<times> json) list \<Rightarrow> string option \<Rightarrow> json" where
  "withNote props note' =
     JObject
       (case note' of
          None \<Rightarrow> props
        | Some n \<Rightarrow> if n = [] then props else props @ [(''note'', JString n)])"

text \<open>The options of a call that sends a JSON document with the given method.\<close>

definition sending :: "string \<Rightarrow> json \<Rightarrow> RequestInit" where
  "sending m doc =
     \<lparr> method' = Some m, body = Some (BodyString (JSON_stringify doc)), headers = None \<rparr>"

definition createAlert :: "OpsGenieClient \<Rightarrow> 'a fetch \<Rightarrow> json \<Rightarrow> issued \<times> (thrown + 'a)" where
  "createAlert this fetch alertData = request this fetch ''/v2/alerts'' (sending ''POST'' alertData)"

definition closeAlert ::
    "OpsGenieClient \<Rightarrow> 'a fetch \<Rightarrow> string \<Rightarrow> string option \<Rightarrow> issued \<times> (thrown + 'a)" where
  "closeAlert this fetch identifier note' =
     request this fetch
       (''/v2/alerts/'' @ encodeURIComponent identifier @ ''/close?identifierType=id'')
       (sending ''POST'' (withNote [] note'))"

definition acknowledgeAlert ::
    "OpsGenieClient \<Rightarrow> 'a fetch \<Rightarrow> string \<Rightarrow> string option \<Rightarrow> issued \<times> (thrown + 'a)" where
  "acknowledgeAlert this fetch identifier note' =
     request this fetch
       (''/v2/alerts/'' @ encodeURIComponent identifier @ ''/acknowledge?identifierType=id'')
       (sending ''POST'' (withNote [] note'))"

text \<open>
  The operations below serialise the document their caller built (\<^verbatim>\<open>snoozeData\<close>,
  \<^verbatim>\<open>assignData\<close>, \<^verbatim>\<open>escalationData\<close>, \<^verbatim>\<open>noteData\<close>) as it is.
\<close>

definition snoozeAlert ::
    "OpsGenieClient \<Rightarrow> 'a fetch \<Rightarrow> string \<Rightarrow> json \<Rightarrow> issued \<times> (thrown + 'a)" where
  "snoozeAlert this fetch identifier snoozeData =
     request this fetch
       (''/v2/alerts/'' @ encodeURIComponent identifier @ ''/snooze?identifierType=id'')
       (sending ''POST'' snoozeData)"

definition unacknowledgeAlert ::
    "OpsGenieClient \<Rightarrow> 'a fetch \<Rightarrow> string \<Rightarrow> string option \<Rightarrow> issued \<times> (thrown + 'a)" where
  "unacknowledgeAlert this fetch identifier note' =
     request this fetch
       (''/v2/alerts/'' @ encodeURIComponent identifier @ ''/unacknowledge?identifierType=id'')
       (sending ''POST'' (withNote [] note'))"

definition assignAlert ::
    "OpsGenieClient \<Rightarrow> 'a fetch \<Rightarrow> string \<Rightarrow> json \<Rightarrow> issued \<times> (thrown + 'a)" where
  "assignAlert this fetch identifier assignData =
     request this fetch
       (''/v2/alerts/'' @ encodeURIComponent identifier @ ''/assign?identifierType=id'')
       (sending ''POST'' assignData)"

definition escalateAlert ::
    "OpsGenieClient \<Rightarrow> 'a fetch \<Rightarrow> string \<Rightarrow> json \<Rightarrow> issued \<times> (thrown + 'a)" where
  "escalateAlert this fetch identifier escalationData =
     request this fetch
       (''/v2/alerts/'' @ encodeURIComponent identifier @ ''/escalate?identifierType=id'')
       (sending ''POST'' escalationData)"

definition addNoteToAlert ::
    "OpsGenieClient \<Rightarrow> 'a fetch \<Rightarrow> string \<Rightarrow> json \<Rightarrow> issued \<times> (thrown + 'a)" where
  "addNoteToAlert this fetch identifier noteData =
     request this fetch
       (''/v2/alerts/'' @ encodeURIComponent identifier @ ''/notes?identifierType=id'')
       (sending ''POST'' noteData)"

definition addTagsToAlert ::
    "OpsGenieClient \<Rightarrow> 'a fetch \<Rightarrow> string \<Rightarrow> string list \<Rightarrow> string option \<Rightarrow> issued \<times> (thrown + 'a)" where
  "addTagsToAlert this fetch identifier tags note' =
     request this fetch
       (''/v2/alerts/'' @ encodeURIComponent identifier @ ''/tags?identifierType=id'')
       (sending ''POST'' (withNote [(''tags'', JArray (map JString tags))] note'))"

definition removeTagsFromAlert ::
    "OpsGenieClient \<Rightarrow> 'a fetch \<Rightarrow> string \<Rightarrow> string list \<Rightarrow> string option \<Rightarrow> issued \<times> (thrown + 'a)" where
  "removeTagsFromAlert this fetch identifier tags note' =
     request this fetch
       (''/v2/alerts/'' @ encodeURIComponent identifier @ ''/tags?identifierType=id'')
       (sending ''DELETE'' (withNote [(''tags'', JArray (map JString tags))] note'))"

text \<open>A stub remote: \<^verbatim>\<open>fetch\<close> resolves to the same response whatever it is asked.\<close>

definition stubRemote :: "'a Response \<Rightarrow> 'a fetch" where
  "stubRemote response = (\<lambda>url init. Resolves response)"

text \<open>A remote that cannot be reached: \<^verbatim>\<open>fetch\<close> rejects with the given value.\<close>

definition failingRemote :: "thrown \<Rightarrow> 'a fetch" where
  "failingRemote e = (\<lambda>url init. Rejects e)"

section \<open>The server: tool and resource handlers\<close>

text \<open>
  The documents of \<^verbatim>\<open>types.ts\<close>, with the fields the handlers read. \<^verbatim>\<open>Responder\<close> has
  \<^verbatim>\<open>type\<close>, \<^verbatim>\<open>id\<close> and an optional \<^verbatim>\<open>name\<close>; of \<^verbatim>\<open>Alert\<close> the fields that
  \<^verbatim>\<open>formatAlertDetails\<close> prints. An optional field that is absent is \<open>None\<close>.
\<close>

record Responder =
  r_type :: string
  r_id :: string
  r_name :: "string option"

record Alert =
  id' :: string
  message :: "string option"
  description :: "string option"
  status' :: "string option"
  priority :: "string option"
  createdAt :: "string option"
  updatedAt :: "string option"
  owner :: "string option"
  tags :: "string list option"
  responders :: "Responder list option"
  acknowledged :: "bool option"
  isSeen :: "bool option"
  snoozed :: "bool option"

record GetAlertResponse =
  requestId :: string
  data :: Alert

text \<open>
  The content of a tool result: a text block, or a resource link with its URI, name,
  description and MIME type. \<^verbatim>\<open>isError\<close> is \<open>None\<close> where the result has no such
  property.
\<close>

datatype ContentBlock =
    TextContent string
  | ResourceLink string string string string

record CallToolResult =
  content :: "ContentBlock list"
  isError :: "bool option"

text \<open>The content of a resource: its URI, its text and its MIME type.\<close>

datatype ResourceContents = ResourceContents string string string

text \<open>\<^verbatim>\<open>v || 'N/A'\<close> on an optional string, and \<^verbatim>\<open>v ? 'Yes' : 'No'\<close> on an optional boolean.\<close>

definition orNA :: "string option \<Rightarrow> string" where
  "orNA v = (case v of None \<Rightarrow> ''N/A'' | Some s \<Rightarrow> if s = [] then ''N/A'' else s)"

definition yesNo :: "bool option \<Rightarrow> string" where
  "yesNo v = (if v = Some True then ''Yes'' else ''No'')"

definition formatAlertDetails :: "Alert \<Rightarrow> string" where
  "formatAlertDetails alert =
     ''Alert Details:'' @ [CHR 0x0A] @
     ''ID: '' @ id' alert @ [CHR 0x0A] @
     ''Message: '' @ orNA (message alert) @ [CHR 0x0A] @
     ''Description: '' @ orNA (description alert) @ [CHR 0x0A] @
     ''Status: '' @ orNA (status' alert) @ [CHR 0x0A] @
     ''Priority: '' @ orNA (priority alert) @ [CHR 0x0A] @
     ''Created At: '' @ orNA (createdAt alert) @ [CHR 0x0A] @
     ''Updated At: '' @ orNA (updatedAt alert) @ [CHR 0x0A] @
     ''Owner: '' @ orNA (owner alert) @ [CHR 0x0A] @
     ''Tags: '' @ orNA (map_option (join '', '') (tags alert)) @ [CHR 0x0A] @
     ''Responders: '' @
       orNA (map_option (\<lambda>rs. join '', '' (map (\<lambda>r. r_type r @ '':'' @ r_id r) rs)) (responders alert)) @
       [CHR 0x0A] @
     ''Acknowledged: '' @ yesNo (acknowledged alert) @ [CHR 0x0A] @
     ''Is Seen: '' @ yesNo (isSeen alert) @ [CHR 0x0A] @
     ''Snoozed: '' @ yesNo (snoozed alert)"

text \<open>\<^verbatim>\<open>error instanceof Error ? error.message : 'Unknown error'\<close>\<close>

definition errorMessage :: "thrown \<Rightarrow> string" where
  "errorMessage error = (case error of Error m \<Rightarrow> m | NonError v \<Rightarrow> ''Unknown error'')"

text \<open>
  The fourteen registered tools, the names they are registered under, and the text each
  catch block puts before the message.
\<close>

datatype Tool =
    GetAlertDetails | GetAlertNotes | SearchAlerts | CloseAlert | AcknowledgeAlert
  | CreateAlert | AddNoteToAlert | AssignAlert | SnoozeAlert | UnacknowledgeAlert
  | EscalateAlert | AddTagsToAlert | RemoveTagsFromAlert | GetAlertCount

fun toolName :: "Tool \<Rightarrow> string" where
  "toolName GetAlertDetails = ''get-alert-details''"
| "toolName GetAlertNotes = ''get-alert-notes''"
| "toolName SearchAlerts = ''search-alerts''"
| "toolName CloseAlert = ''close-alert''"
| "toolName AcknowledgeAlert = ''acknowledge-alert''"
| "toolName CreateAlert = ''create-alert''"
| "toolName AddNoteToAlert = ''add-note-to-alert''"
| "toolName AssignAlert = ''assign-alert''"
| "toolName SnoozeAlert = ''snooze-alert''"
| "toolName UnacknowledgeAlert = ''unacknowledge-alert''"
| "toolName EscalateAlert = ''escalate-alert''"
| "toolName AddTagsToAlert = ''add-tags-to-alert''"
| "toolName RemoveTagsFromAlert = ''remove-tags-from-alert''"
| "toolName GetAlertCount = ''get-alert-count''"

fun errorLabel :: "Tool \<Rightarrow> string" where
  "errorLabel GetAlertDetails = ''Error fetching alert details: ''"
| "errorLabel GetAlertNotes = ''Error fetching alert notes: ''"
| "errorLabel SearchAlerts = ''Error searching alerts: ''"
| "errorLabel CloseAlert = ''Error closing alert: ''"
| "errorLabel AcknowledgeAlert = ''Error acknowledging alert: ''"
| "errorLabel CreateAlert = ''Error creating alert: ''"
| "errorLabel AddNoteToAlert = ''Error adding note to alert: ''"
| "errorLabel AssignAlert = ''Error assigning alert: ''"
| "errorLabel SnoozeAlert = ''Error snoozing alert: ''"
| "errorLabel UnacknowledgeAlert = ''Error unacknowledging alert: ''"
| "errorLabel EscalateAlert = ''Error escalating alert: ''"
| "errorLabel AddTagsToAlert = ''Error adding tags to alert: ''"
| "errorLabel RemoveTagsFromAlert = ''Error removing tags from alert: ''"
| "errorLabel GetAlertCount = ''Error getting alert count: ''"

text \<open>
  Every tool handler is one \<^verbatim>\<open>try { ... } catch (error) { return ... }\<close>: the try
  block either returns a result or throws, and the catch block turns what was thrown
  into a result of one text block with \<^verbatim>\<open>isError: true\<close>.
\<close>

definition toolCatch :: "Tool \<Rightarrow> thrown \<Rightarrow> CallToolResult" where
  "toolCatch tool error =
     \<lparr> content = [TextContent (errorLabel tool @ errorMessage error)], isError = Some True \<rparr>"

definition toolHandler :: "Tool \<Rightarrow> thrown + CallToolResult \<Rightarrow> CallToolResult" where
  "toolHandler tool tryBlock =
     (case tryBlock of Inr result \<Rightarrow> result | Inl error \<Rightarrow> toolCatch tool error)"

text \<open>The handler registered as \<^verbatim>\<open>get-alert-details\<close>, with the requests it issued.\<close>

definition getAlertDetailsTool ::
    "OpsGenieClient \<Rightarrow> GetAlertResponse fetch \<Rightarrow> string \<Rightarrow> issued \<times> CallToolResult" where
  "getAlertDetailsTool opsgenieClient fetch identifier =
     (case getAlert opsgenieClient fetch identifier of
        (reqs, outcome) \<Rightarrow>
          (reqs,
           toolHandler GetAlertDetails
             (case outcome of
                Inl error \<Rightarrow> Inl error
              | Inr response \<Rightarrow>
                  (let alert = data response
                   in Inr \<lparr> content =
                              [TextContent (formatAlertDetails alert),
                               ResourceLink
                                 (''opsgenie://alerts/'' @ id' alert)
                                 (''Alert '' @ id' alert)
                                 (''Detailed JSON data for alert '' @ id' alert)
                                 ''application/json''],
                            isError = None \<rparr>))))"

text \<open>
  The four registered resources and the text each catch block puts before the message.
  Every resource handler is one \<^verbatim>\<open>try { ... } catch (error) { throw new Error(...) }\<close>.
\<close>

datatype Resource = AlertDetails | AlertNotes | AlertSearch | RecentAlerts

fun failLabel :: "Resource \<Rightarrow> string" where
  "failLabel AlertDetails = ''Failed to fetch alert details: ''"
| "failLabel AlertNotes = ''Failed to fetch alert notes: ''"
| "failLabel AlertSearch = ''Failed to search alerts: ''"
| "failLabel RecentAlerts = ''Failed to fetch recent alerts: ''"

definition resourceHandler :: "Resource \<Rightarrow> thrown + 'r \<Rightarrow> thrown + 'r" where
  "resourceHandler resource tryBlock =
     (case tryBlock of
        Inr result \<Rightarrow> Inr result
      | Inl error \<Rightarrow> Inl (Error (failLabel resource @ errorMessage error)))"

text \<open>
  A variable of a matched URI template is a string or an array of strings, and
  \<open>None\<close> when the template has bound no such variable.
  \<^verbatim>\<open>Array.isArray(alertId) ? alertId[0] : alertId\<close> takes the first element of an
  array (nothing, when it is empty).
\<close>

datatype Variable = Single string | Multiple "string list"

definition firstValue :: "Variable option \<Rightarrow> string option" where
  "firstValue v =
     (case v of
        None \<Rightarrow> None
      | Some (Single s) \<Rightarrow> Some s
      | Some (Multiple xs) \<Rightarrow> (case xs of [] \<Rightarrow> None | x # _ \<Rightarrow> Some x))"

text \<open>
  The handler of the resource \<^verbatim>\<open>alert-details\<close>. The text of its content is
  \<^verbatim>\<open>JSON.stringify(alert, null, 2)\<close>, which depends on the order and on the undeclared
  properties of the document the remote sent; it is the parameter \<open>stringify\<close>.
\<close>

definition alertDetailsResource ::
    "(Alert \<Rightarrow> string) \<Rightarrow> OpsGenieClient \<Rightarrow> GetAlertResponse fetch \<Rightarrow> string \<Rightarrow> Variable option \<Rightarrow>
     issued \<times> (thrown + ResourceContents list)" where
  "alertDetailsResource stringify opsgenieClient fetch href alertId =
     (case firstValue alertId of
        None \<Rightarrow> ([], resourceHandler AlertDetails (Inl (Error ''Alert ID is required'')))
      | Some alertIdStr \<Rightarrow>
          if alertIdStr = [] then
            ([], resourceHandler AlertDetails (Inl (Error ''Alert ID is required'')))
          else
            (case getAlert opsgenieClient fetch alertIdStr of
               (reqs, outcome) \<Rightarrow>
                 (reqs,
                  resourceHandler AlertDetails
                    (case outcome of
                       Inl error \<Rightarrow> Inl error
                     | Inr response \<Rightarrow>
                         (let alert = data response
                          in Inr [ResourceContents href (stringify alert) ''application/json''])))))"

text \<open>
  Reading a resource. The server registers one resource under a fixed URI and three under
  a URI template, in this order of the templates. To read a URI, the protocol library
  parses it with \<^verbatim>\<open>new URL(uri)\<close>, which throws on a text that is no URL and gives the
  normalised form \<^verbatim>\<open>href\<close> of any other; what the parser makes of a text is the
  parameter \<open>parseURL\<close>. The library then looks \<^verbatim>\<open>href\<close> up among the resources with a
  fixed URI; when there is none it tries the templates in the order of their registration
  and takes the first that matches. The handler of that resource is called with the
  parsed URL and the variables of the match.
\<close>

definition registeredResources :: "(string \<times> Resource) list" where
  "registeredResources = [(''opsgenie://alerts/recent'', RecentAlerts)]"

text \<open>
  Each template of the server is a literal text, one variable in braces and a literal
  text again: \<^verbatim>\<open>opsgenie://alerts/{alertId}\<close>, \<^verbatim>\<open>opsgenie://alerts/{alertId}/notes\<close> and
  \<^verbatim>\<open>opsgenie://search?query={query}\<close>.
\<close>

datatype UriTemplate = UriTemplate string string string

definition registeredResourceTemplates :: "(Resource \<times> UriTemplate) list" where
  "registeredResourceTemplates =
     [(AlertDetails, UriTemplate ''opsgenie://alerts/'' ''alertId'' []),
      (AlertNotes, UriTemplate ''opsgenie://alerts/'' ''alertId'' ''/notes''),
      (AlertSearch, UriTemplate ''opsgenie://search?query='' ''query'' [])]"

text \<open>
  The matcher of the library turns such a template into the regular expression of its
  first literal, \<^verbatim>\<open>([^/,]+)\<close> and its second literal, anchored at both ends, and applies
  it to \<^verbatim>\<open>href\<close>: the variable is one or more characters other than \<^verbatim>\<open>/\<close> and \<^verbatim>\<open>,\<close>,
  taken as they are (nothing is decoded).
\<close>

fun uriTemplateMatch :: "UriTemplate \<Rightarrow> string \<Rightarrow> (string \<times> Variable) list option" where
  "uriTemplateMatch (UriTemplate before name after) uri =
     (let rest = drop (length before) uri;
          var = take (length rest - length after) rest
      in if prefix before uri \<and> suffix after rest \<and> var \<noteq> [] \<and>
            CHR ''/'' \<notin> set var \<and> CHR '','' \<notin> set var
         then Some [(name, Single var)]
         else None)"

fun firstMatch ::
    "(Resource \<times> UriTemplate) list \<Rightarrow> string \<Rightarrow> (Resource \<times> (string \<times> Variable) list) option" where
  "firstMatch [] uri = None"
| "firstMatch ((resource, template) # templates) uri =
     (case uriTemplateMatch template uri of
        Some variables \<Rightarrow> Some (resource, variables)
      | None \<Rightarrow> firstMatch templates uri)"

datatype ReadFailure = InvalidURL | ResourceNotFound string

text \<open>
  \<open>readResource\<close> gives the normalised URI, the resource whose handler is called and the
  variables it is called with.
\<close>

definition readResource ::
    "(string \<Rightarrow> string option) \<Rightarrow> string \<Rightarrow>
     ReadFailure + (string \<times> Resource \<times> (string \<times> Variable) list)" where
  "readResource parseURL uri =
     (case parseURL uri of
        None \<Rightarrow> Inl InvalidURL
      | Some href \<Rightarrow>
          (case map_of registeredResources href of
             Some resource \<Rightarrow> Inr (href, resource, [])
           | None \<Rightarrow>
               (case firstMatch registeredResourceTemplates href of
                  Some (resource, variables) \<Rightarrow> Inr (href, resource, variables)
                | None \<Rightarrow> Inl (ResourceNotFound href))))"

text \<open>
  Reading the URI of an alert: when the URI resolves to the resource \<^verbatim>\<open>alert-details\<close>,
  its handler runs with the variable \<^verbatim>\<open>alertId\<close> of the match; \<open>None\<close> when the URI is
  refused or belongs to another resource.
\<close>

definition readAlertDetails ::
    "(string \<Rightarrow> string option) \<Rightarrow> (Alert \<Rightarrow> string) \<Rightarrow> OpsGenieClient \<Rightarrow> GetAlertResponse fetch \<Rightarrow>
     string \<Rightarrow> (issued \<times> (thrown + ResourceContents list)) option" where
  "readAlertDetails parseURL stringify opsgenieClient fetch uri =
     (case readResource parseURL uri of
        Inl failure \<Rightarrow> None
      | Inr (href, resource, variables) \<Rightarrow>
          (case resource of
             AlertDetails \<Rightarrow>
               Some (alertDetailsResource stringify opsgenieClient fetch href
                       (map_of variables ''alertId''))
           | _ \<Rightarrow> None))"

section \<open>Notions the properties are stated with\<close>

text \<open>
  The endpoints of the issued requests: what follows the base URL of the client in their
  URLs.
\<close>

definition endpoints :: "OpsGenieClient \<Rightarrow> issued \<Rightarrow> string list" where
  "endpoints this reqs = map (\<lambda>(url, init). drop (length (this_baseUrl this)) url) reqs"

text \<open>
  A list of URLs pins the identifier type when it is one URL that has the query
  parameter \<^verbatim>\<open>identifierType=id\<close>.
\<close>

definition pinsIdentifierType :: "string list \<Rightarrow> bool" where
  "pinsIdentifierType urls \<longleftrightarrow>
     length urls = 1 \<and> list_all (\<lambda>url. ''identifierType=id'' \<in> set (queryParameters url)) urls"

text \<open>The headers that options hold: none when they have no property \<^verbatim>\<open>headers\<close>.\<close>

definition headersOf :: "RequestInit \<Rightarrow> (string \<times> string) list" where
  "headersOf init = (case headers init of None \<Rightarrow> [] | Some h \<Rightarrow> h)"

text \<open>
  The names of HTTP headers are compared without regard to the case of their letters,
  which are ASCII: \<^verbatim>\<open>fetch\<close> takes \<^verbatim>\<open>authorization\<close> and \<^verbatim>\<open>AUTHORIZATION\<close> for the header
  \<^verbatim>\<open>Authorization\<close>. The properties of an object are not: the three are different keys.
\<close>

definition asciiLowerCase :: "string \<Rightarrow> string" where
  "asciiLowerCase s =
     map (\<lambda>c. case map_of (zip ''ABCDEFGHIJKLMNOPQRSTUVWXYZ'' ''abcdefghijklmnopqrstuvwxyz'') c of
                 None \<Rightarrow> c
               | Some l \<Rightarrow> l) s"

definition namesAuthorization :: "string \<Rightarrow> bool" where
  "namesAuthorization k \<longleftrightarrow> asciiLowerCase k = ''authorization''"

text \<open>
  The values of the headers that \<^verbatim>\<open>fetch\<close> takes for \<^verbatim>\<open>Authorization\<close>, in the order of
  the options it is given.
\<close>

definition authorizationHeaders :: "RequestInit \<Rightarrow> string list" where
  "authorizationHeaders init = map snd (filter (\<lambda>(k, v). namesAuthorization k) (headersOf init))"

text \<open>
  The call headers that \<^verbatim>\<open>fetch\<close> takes for \<^verbatim>\<open>Authorization\<close> although they are spelled
  otherwise, as the properties of the object of the call: each name once, with the value
  written last.
\<close>

definition otherSpellings :: "(string \<times> string) list \<Rightarrow> (string \<times> string) list" where
  "otherSpellings h =
     filter (\<lambda>(k, v). namesAuthorization k \<and> k \<noteq> ''Authorization'') (spread [] h)"


text \<open>The authorization value the adapter computes for a raw key.\<close>

definition authorization :: "string \<Rightarrow> string" where
  "authorization key = ''GenieKey '' @ this_apiKey (constructor \<lparr> apiKey = key, baseUrl = None \<rparr>)"

section \<open>Lemmas\<close>

subsection \<open>The characters the encoders produce\<close>

lemma hexDigit_mem: "hexDigit n \<in> set ''0123456789ABCDEF''"
  unfolding hexDigit_def by (rule nth_mem) simp

lemma percentByte_chars: "x \<in> set (percentByte c) \<Longrightarrow> x \<in> set ''%0123456789ABCDEF''"
  using hexDigit_mem[of "of_char c div 16"] hexDigit_mem[of "of_char c mod 16"]
  unfolding percentByte_def by auto

lemma encodeURIComponent_chars:
  "x \<in> set (encodeURIComponent s) \<Longrightarrow> uriUnreserved x \<or> x \<in> set ''%0123456789ABCDEF''"
  unfolding encodeURIComponent_def by (auto dest: percentByte_chars split: if_splits)

lemma encodeURIComponent_no_delims:
  "CHR ''?'' \<notin> set (encodeURIComponent s)" "CHR ''#'' \<notin> set (encodeURIComponent s)"
  "CHR ''/'' \<notin> set (encodeURIComponent s)" "CHR ''&'' \<notin> set (encodeURIComponent s)"
  by (auto dest!: encodeURIComponent_chars simp: uriUnreserved_def isAlphaNum_def)

lemma formByte_chars:
  "x \<in> set (formByte c) \<Longrightarrow> isAlphaNum x \<or> x \<in> set ''*-._+%0123456789ABCDEF''"
  unfolding formByte_def by (auto dest: percentByte_chars split: if_splits)

lemma formEncode_chars:
  "x \<in> set (formEncode s) \<Longrightarrow> isAlphaNum x \<or> x \<in> set ''*-._+%0123456789ABCDEF''"
  unfolding formEncode_def by (auto dest: formByte_chars)

lemma formEncode_no_delims:
  "CHR ''&'' \<notin> set (formEncode s)" "CHR ''#'' \<notin> set (formEncode s)"
  "CHR ''='' \<notin> set (formEncode s)" "CHR ''?'' \<notin> set (formEncode s)"
  by (auto dest!: formEncode_chars simp: isAlphaNum_def)

subsection \<open>Splitting and joining\<close>

lemma splitOn_nonempty: "splitOn c s \<noteq> []"
  by (induction s) (auto split: list.splits)

lemma splitOn_single: "c \<notin> set t \<Longrightarrow> splitOn c t = [t]"
  by (induction t) (auto split: list.splits)

lemma splitOn_append: "splitOn c (s @ c # t) = splitOn c s @ splitOn c t"
  by (induction s) (auto split: list.splits simp: splitOn_nonempty)

lemma join_snoc: "join sep (xs @ [x]) = (if xs = [] then x else join sep xs @ sep @ x)"
  by (induction sep xs rule: join.induct) auto

lemma join_Cons: "join sep (x # xs) = (if xs = [] then x else x @ sep @ join sep xs)"
  by (cases xs) auto

lemma splitOn_join:
  "xs \<noteq> [] \<Longrightarrow> (\<And>x. x \<in> set xs \<Longrightarrow> c \<notin> set x) \<Longrightarrow> splitOn c (join [c] xs) = xs"
proof (induction xs)
  case Nil
  then show ?case by simp
next
  case (Cons x xs)
  show ?case
  proof (cases "xs = []")
    case True
    then show ?thesis using Cons.prems by (simp add: splitOn_single)
  next
    case False
    have "splitOn c (join [c] (x # xs)) = splitOn c (x @ c # join [c] xs)"
      using False by (simp add: join_Cons)
    also have "\<dots> = splitOn c x @ splitOn c (join [c] xs)"
      by (rule splitOn_append)
    also have "\<dots> = [x] @ xs"
      using Cons.IH[OF False] Cons.prems by (simp add: splitOn_single)
    finally show ?thesis by simp
  qed
qed

lemma join_no_char:
  "(\<And>x. x \<in> set xs \<Longrightarrow> c \<notin> set x) \<Longrightarrow> c \<notin> set sep \<Longrightarrow> c \<notin> set (join sep xs)"
  by (induction sep xs rule: join.induct) auto

lemma toString_no_hash: "CHR ''#'' \<notin> set (toString search)"
  unfolding toString_def
  by (rule join_no_char) (auto simp: formEncode_no_delims)

subsection \<open>The query of a URL\<close>

lemma urlQuery_append:
  assumes "CHR ''?'' \<notin> set p" "CHR ''#'' \<notin> set p" "CHR ''#'' \<notin> set q"
  shows "urlQuery (p @ ''?'' @ q) = q"
proof -
  have 1: "takeWhile (\<lambda>c. c \<noteq> CHR ''#'') (p @ ''?'' @ q) = p @ ''?'' @ q"
    using assms by (auto simp: takeWhile_eq_all_conv)
  have 2: "dropWhile (\<lambda>c. c \<noteq> CHR ''?'') (p @ ''?'' @ q) = ''?'' @ q"
    using assms by (subst dropWhile_append2) auto
  show ?thesis unfolding urlQuery_def 1 2 by simp
qed

lemma urlBeforeQuery_append:
  "CHR ''?'' \<notin> set p \<Longrightarrow> CHR ''#'' \<notin> set p \<Longrightarrow> urlBeforeQuery (p @ ''?'' @ q) = p"
  unfolding urlBeforeQuery_def by (subst takeWhile_append2) auto

subsection \<open>The requests the adapter issues\<close>

lemma fst_request:
  "fst (request this fetch endpoint options) =
     [(this_baseUrl this @ endpoint,
       options\<lparr>headers := Some (spread [(''Authorization'', ''GenieKey '' @ this_apiKey this), (''Content-Type'', ''application/json'')] (case headers options of None \<Rightarrow> [] | Some h \<Rightarrow> h)),
               body := (case body options of Some (BodyObject b) \<Rightarrow> None | v \<Rightarrow> v)\<rparr>)]"
  by (simp add: request_def Let_def split: option.splits BodyInit.splits)

lemma urls_request:
  "map fst (fst (request this fetch endpoint options)) = [this_baseUrl this @ endpoint]"
  by (simp add: fst_request)

lemma endpoints_request:
  "endpoints this (fst (request this fetch endpoint options)) = [endpoint]"
  by (simp add: fst_request endpoints_def)

subsection \<open>Endpoints that end in the identifier type\<close>

lemma pins_literal:
  assumes "CHR ''?'' \<notin> set p" and "CHR ''#'' \<notin> set p"
    and "CHR ''?'' \<notin> set act" and "CHR ''#'' \<notin> set act"
  shows "pinsIdentifierType [p @ ''/v2/alerts/'' @ encodeURIComponent i @ act @ ''?identifierType=id'']"
proof -
  let ?p = "p @ ''/v2/alerts/'' @ encodeURIComponent i @ act"
  have p: "CHR ''?'' \<notin> set ?p" "CHR ''#'' \<notin> set ?p"
    using assms by (simp_all add: encodeURIComponent_no_delims)
  have q: "urlQuery (?p @ ''?'' @ ''identifierType=id'') = ''identifierType=id''"
    by (rule urlQuery_append[OF p]) simp
  have "queryParameters (?p @ ''?'' @ ''identifierType=id'') = [''identifierType=id'']"
    unfolding queryParameters_def q by (simp add: splitOn_single)
  then show ?thesis
    by (simp add: pinsIdentifierType_def)
qed

lemma pins_notes:
  assumes "CHR ''?'' \<notin> set p" and "CHR ''#'' \<notin> set p"
  shows "pinsIdentifierType
           [p @ ''/v2/alerts/'' @ encodeURIComponent i @ ''/notes?'' @ toString (getAlertNotesSearch params)]"
proof -
  let ?p = "p @ ''/v2/alerts/'' @ encodeURIComponent i @ ''/notes''"
  obtain s where s: "getAlertNotesSearch params = s @ [(''identifierType'', ''id'')]"
    by (simp add: getAlertNotesSearch_def append'_def)
  have e: "formEncode ''identifierType'' = ''identifierType''" "formEncode ''id'' = ''id''"
    by (simp_all add: formEncode_def formByte_def isAlphaNum_def)
  have t: "toString (getAlertNotesSearch params) =
      (if s = [] then ''identifierType=id'' else toString s @ ''&'' @ ''identifierType=id'')"
    unfolding s toString_def by (simp add: join_snoc e)
  have p: "CHR ''?'' \<notin> set ?p" "CHR ''#'' \<notin> set ?p"
    using assms by (simp_all add: encodeURIComponent_no_delims)
  have q: "urlQuery (?p @ ''?'' @ toString (getAlertNotesSearch params)) = toString (getAlertNotesSearch params)"
    by (rule urlQuery_append[OF p]) (rule toString_no_hash)
  have m: "''identifierType=id'' \<in> set (splitOn (CHR ''&'') (toString (getAlertNotesSearch params)))"
  proof (cases "s = []")
    case True
    then show ?thesis unfolding t by (simp add: splitOn_single)
  next
    case False
    have "splitOn (CHR ''&'') (toString s @ CHR ''&'' # ''identifierType=id'') =
          splitOn (CHR ''&'') (toString s) @ splitOn (CHR ''&'') ''identifierType=id''"
      by (rule splitOn_append)
    then show ?thesis unfolding t using False by (simp add: splitOn_single)
  qed
  have n: "toString (getAlertNotesSearch params) \<noteq> []"
    unfolding t by simp
  have "''identifierType=id'' \<in> set (queryParameters (?p @ ''?'' @ toString (getAlertNotesSearch params)))"
    unfolding queryParameters_def q using m n by simp
  then show ?thesis
    by (simp add: pinsIdentifierType_def)
qed

lemma pins_operation:
  assumes "CHR ''?'' \<notin> set act" and "CHR ''#'' \<notin> set act"
  shows "pinsIdentifierType (endpoints this (fst (request this fetch
           (''/v2/alerts/'' @ encodeURIComponent i @ act @ ''?identifierType=id'') options))) \<and>
         (CHR ''?'' \<notin> set (this_baseUrl this) \<and> CHR ''#'' \<notin> set (this_baseUrl this) \<longrightarrow>
          pinsIdentifierType (map fst (fst (request this fetch
           (''/v2/alerts/'' @ encodeURIComponent i @ act @ ''?identifierType=id'') options))))"
  unfolding endpoints_request urls_request
  using pins_literal[of "[]" act i] pins_literal[of "this_baseUrl this" act i] assms by simp

subsection \<open>The search parameters\<close>

lemma set_appendIfTruthy:
  "set (appendIfTruthy k v s) = set s \<union> (case v of None \<Rightarrow> {} | Some x \<Rightarrow> if x = [] then {} else {(k, x)})"
  by (simp add: appendIfTruthy_def append'_def split: option.splits)

lemma set_appendIfDefined:
  "set (appendIfDefined k v s) = set s \<union> (case v of None \<Rightarrow> {} | Some x \<Rightarrow> {(k, x)})"
  by (simp add: appendIfDefined_def append'_def split: option.splits)

lemma mem_truthy:
  "(k, v) \<in> (case w of None \<Rightarrow> {} | Some x \<Rightarrow> if x = [] then {} else {(k0, x)}) \<longleftrightarrow>
     k = k0 \<and> w = Some v \<and> v \<noteq> []"
  by (auto split: option.splits)

lemma mem_defined:
  "(k, v) \<in> (case w of None \<Rightarrow> {} | Some x \<Rightarrow> {(k0, x)}) \<longleftrightarrow> k = k0 \<and> w = Some v"
  by (auto split: option.splits)

lemma searchAlertsSearch_mem:
  "(k, v) \<in> set (searchAlertsSearch params) \<longleftrightarrow>
     (k = ''query'' \<and> query params = Some v \<and> v \<noteq> []) \<or>
     (k = ''searchIdentifier'' \<and> searchIdentifier params = Some v \<and> v \<noteq> []) \<or>
     (k = ''searchIdentifierType'' \<and> searchIdentifierType params = Some v \<and> v \<noteq> []) \<or>
     (k = ''offset'' \<and> map_option String' (offset params) = Some v) \<or>
     (k = ''limit'' \<and> map_option String' (limit params) = Some v) \<or>
     (k = ''sort'' \<and> sort' params = Some v \<and> v \<noteq> []) \<or>
     (k = ''order'' \<and> order params = Some v \<and> v \<noteq> [])"
  unfolding searchAlertsSearch_def set_appendIfTruthy set_appendIfDefined Un_iff mem_truthy mem_defined
  by simp

lemma step_truthy:
  "distinct (map fst s) \<and> fst ` set s \<subseteq> K \<Longrightarrow> k \<notin> K \<Longrightarrow>
     distinct (map fst (appendIfTruthy k v s)) \<and> fst ` set (appendIfTruthy k v s) \<subseteq> insert k K"
  by (auto simp: appendIfTruthy_def append'_def split: option.splits)

lemma step_defined:
  "distinct (map fst s) \<and> fst ` set s \<subseteq> K \<Longrightarrow> k \<notin> K \<Longrightarrow>
     distinct (map fst (appendIfDefined k v s)) \<and> fst ` set (appendIfDefined k v s) \<subseteq> insert k K"
  by (auto simp: appendIfDefined_def append'_def split: option.splits)

lemma searchAlertsSearch_keys:
  "distinct (map fst (searchAlertsSearch params)) \<and>
   fst ` set (searchAlertsSearch params) \<subseteq>
     {''order'', ''sort'', ''limit'', ''offset'', ''searchIdentifierType'', ''searchIdentifier'', ''query''}"
  unfolding searchAlertsSearch_def
  by (intro step_truthy step_defined) simp_all

lemma searchAlertsSearch_distinct: "distinct (map fst (searchAlertsSearch params))"
  by (rule conjunct1[OF searchAlertsSearch_keys])

lemma takeWhile_upto: "c \<notin> set xs \<Longrightarrow> takeWhile (\<lambda>x. x \<noteq> c) (xs @ c # ys) = xs"
  by (induction xs) auto

lemma join_nonempty: "xs \<noteq> [] \<Longrightarrow> (\<And>x. x \<in> set xs \<Longrightarrow> x \<noteq> []) \<Longrightarrow> join sep xs \<noteq> []"
  by (induction sep xs rule: join.induct) auto

lemma queryKeys_toString:
  assumes "CHR ''?'' \<notin> set p" and "CHR ''#'' \<notin> set p"
  shows "queryKeys (p @ ''?'' @ toString search) = map (formEncode \<circ> fst) search"
proof (cases "search = []")
  case True
  have "urlQuery (p @ ''?'' @ []) = []"
    by (rule urlQuery_append[OF assms]) simp
  then show ?thesis using True
    by (simp add: queryKeys_def queryParameters_def toString_def)
next
  case False
  let ?enc = "\<lambda>(k, v). formEncode k @ ''='' @ formEncode v"
  have q: "urlQuery (p @ ''?'' @ toString search) = toString search"
    by (rule urlQuery_append[OF assms]) (rule toString_no_hash)
  have ne: "toString search \<noteq> []"
    unfolding toString_def using False by (intro join_nonempty) auto
  have sp: "splitOn (CHR ''&'') (toString search) = map ?enc search"
    unfolding toString_def using False
    by (intro splitOn_join) (auto simp: formEncode_no_delims)
  have tk: "takeWhile (\<lambda>c. c \<noteq> CHR ''='') (?enc kv) = (formEncode \<circ> fst) kv" for kv
    by (cases kv) (simp add: takeWhile_upto formEncode_no_delims)
  have "map (takeWhile (\<lambda>c. c \<noteq> CHR ''='')) (map ?enc search) = map (formEncode \<circ> fst) search"
    unfolding map_map by (rule map_cong[OF refl]) (simp only: comp_apply tk)
  then show ?thesis
    unfolding queryKeys_def queryParameters_def q sp using ne by simp
qed

lemma formEncode_searchKeys:
  assumes "(k, v) \<in> set (searchAlertsSearch params)"
  shows "formEncode k = k"
proof -
  from assms have "fst (k, v) \<in> fst ` set (searchAlertsSearch params)"
    by (rule imageI)
  then have "k \<in> fst ` set (searchAlertsSearch params)"
    by (simp only: fst_conv)
  then have m: "k \<in> {''order'', ''sort'', ''limit'', ''offset'', ''searchIdentifierType'', ''searchIdentifier'', ''query''}"
    by (rule subsetD[OF conjunct2[OF searchAlertsSearch_keys]])
  have lits: "\<forall>k\<in>{''order'', ''sort'', ''limit'', ''offset'', ''searchIdentifierType'', ''searchIdentifier'', ''query''}.
      formEncode k = k"
    by (simp add: formEncode_def formByte_def isAlphaNum_def)
  show ?thesis by (rule bspec[OF lits m])
qed

subsection \<open>Request bodies\<close>

lemma JSON_stringify_withNote_empty:
  "JSON_stringify (withNote [] note') =
     (case note' of
        None \<Rightarrow> ''{}''
      | Some n \<Rightarrow> if n = [] then ''{}'' else ''{'' @ quoteJSONString ''note'' @ '':'' @ quoteJSONString n @ ''}'')"
  by (simp add: withNote_def split: option.splits)

lemma wireBody_sending:
  "map (wireBody \<circ> snd) (fst (request this fetch endpoint (sending m doc))) = [Some (JSON_stringify doc)]"
  by (simp add: fst_request sending_def wireBody_def)

subsection \<open>Merging headers\<close>

lemma map_of_assign: "map_of (assign k v ps) = (map_of ps)(k \<mapsto> v)"
  by (induction ps) (auto simp: fun_eq_iff)

lemma keys_assign: "fst ` set (assign k v ps) = insert k (fst ` set ps)"
  by (induction ps) auto

lemma spread_Cons: "spread obj (x # src) = spread (assign (fst x) (snd x) obj) src"
  by (simp add: spread_def case_prod_beta)

lemma map_of_spread: "map_of (spread obj src) = map_of obj ++ map_of (rev src)"
proof (induction src arbitrary: obj)
  case Nil
  then show ?case by (simp add: spread_def)
next
  case (Cons x src)
  have "map_of (spread obj (x # src)) = (map_of obj)(fst x \<mapsto> snd x) ++ map_of (rev src)"
    by (simp only: spread_Cons Cons.IH map_of_assign)
  also have "\<dots> = map_of obj ++ map_of (rev (x # src))"
    by (cases x) (auto simp: fun_eq_iff map_add_def split: option.splits)
  finally show ?case .
qed

subsection \<open>Stripping the key\<close>

lemma whiteSpaceLen_skip: "whiteSpaceLen (skipWhiteSpace s) = 0"
proof (induction s rule: skipWhiteSpace.induct)
  case 1
  then show ?case by simp
next
  case (2 a s)
  show ?case
  proof (cases "whiteSpaceLen (a # s)")
    case 0
    then show ?thesis by (simp del: whiteSpaceLen.simps)
  next
    case (Suc n)
    then show ?thesis using 2 by (simp del: whiteSpaceLen.simps)
  qed
qed

lemma skipWhiteSpace_id: "whiteSpaceLen s = 0 \<Longrightarrow> skipWhiteSpace s = s"
  by (cases s) (simp_all del: whiteSpaceLen.simps)

lemma whiteSpaceLen_replace: "whiteSpaceLen k = 0 \<Longrightarrow> whiteSpaceLen (replaceGenieKey k) = 0"
  by (simp add: replaceGenieKey_def whiteSpaceLen_skip)

lemma replace_canonical:
  assumes "whiteSpaceLen r = 0"
  shows "replaceGenieKey (''GenieKey '' @ r) = r"
proof -
  have "whiteSpaceLen (CHR '' '' # r) = Suc 0"
    by (simp add: asciiWhiteSpace_def)
  then have "skipWhiteSpace (CHR '' '' # r) = skipWhiteSpace r"
    by (simp del: whiteSpaceLen.simps)
  then show ?thesis
    using assms by (simp add: replaceGenieKey_def skipWhiteSpace_id asciiWhiteSpace_def)
qed

subsection \<open>The authorization values handed to fetch\<close>

lemma spread_snoc: "spread obj (src @ [(k, v)]) = assign k v (spread obj src)"
  by (simp add: spread_def)

lemma keys_spread: "fst ` set (spread obj src) = fst ` set obj \<union> fst ` set src"
proof (induction src rule: rev_induct)
  case Nil
  then show ?case by (simp add: spread_def)
next
  case (snoc x src)
  obtain k v where x: "x = (k, v)" by (cases x)
  show ?case
    unfolding x spread_snoc keys_assign snoc.IH by simp
qed

lemma filter_assign_in:
  "P k \<Longrightarrow> filter (\<lambda>(k', v'). P k') (assign k v ps) = assign k v (filter (\<lambda>(k', v'). P k') ps)"
  by (induction ps) auto

lemma filter_assign_out:
  "\<not> P k \<Longrightarrow> filter (\<lambda>(k', v'). P k') (assign k v ps) = filter (\<lambda>(k', v'). P k') ps"
  by (induction ps) auto

lemma spread_defaults:
  assumes "A \<noteq> C"
  shows "spread [(A, a), (C, c)] h =
     (A, case map_of (rev h) A of None \<Rightarrow> a | Some w \<Rightarrow> w) #
     (C, case map_of (rev h) C of None \<Rightarrow> c | Some w \<Rightarrow> w) #
     filter (\<lambda>(k, v). k \<noteq> A \<and> k \<noteq> C) (spread [] h)"
proof (induction h rule: rev_induct)
  case Nil
  then show ?case by (simp add: spread_def)
next
  case (snoc x h)
  obtain k v where x: "x = (k, v)" by (cases x)
  consider "k = A" | "k = C" | "k \<noteq> A" "k \<noteq> C" by auto
  then show ?case
  proof cases
    case 1
    then have "\<not> (k \<noteq> A \<and> k \<noteq> C)" by simp
    then have f: "filter (\<lambda>(k', v'). k' \<noteq> A \<and> k' \<noteq> C) (assign k v (spread [] h)) =
        filter (\<lambda>(k', v'). k' \<noteq> A \<and> k' \<noteq> C) (spread [] h)"
      by (rule filter_assign_out)
    show ?thesis
      unfolding x spread_snoc snoc.IH f using 1 assms by simp
  next
    case 2
    then have "\<not> (k \<noteq> A \<and> k \<noteq> C)" by simp
    then have f: "filter (\<lambda>(k', v'). k' \<noteq> A \<and> k' \<noteq> C) (assign k v (spread [] h)) =
        filter (\<lambda>(k', v'). k' \<noteq> A \<and> k' \<noteq> C) (spread [] h)"
      by (rule filter_assign_out)
    show ?thesis
      unfolding x spread_snoc snoc.IH f using 2 assms by simp
  next
    case 3
    then have "k \<noteq> A \<and> k \<noteq> C" by simp
    then have f: "filter (\<lambda>(k', v'). k' \<noteq> A \<and> k' \<noteq> C) (assign k v (spread [] h)) =
        assign k v (filter (\<lambda>(k', v'). k' \<noteq> A \<and> k' \<noteq> C) (spread [] h))"
      by (rule filter_assign_in)
    show ?thesis
      unfolding x spread_snoc snoc.IH f using 3 assms by simp
  qed
qed

lemma namesAuthorization_defaults:
  "namesAuthorization ''Authorization''" "\<not> namesAuthorization ''Content-Type''"
  by (simp_all add: namesAuthorization_def asciiLowerCase_def)

lemma authorizationHeaders_request:
  "map (authorizationHeaders \<circ> snd) (fst (request (constructor config) fetch endpoint options)) =
     [(case map_of (rev (headersOf options)) ''Authorization'' of
         None \<Rightarrow> ''GenieKey '' @ replaceGenieKey (apiKey config)
       | Some v \<Rightarrow> v) #
      map snd (otherSpellings (headersOf options))]"
proof -
  let ?h = "headersOf options"
  let ?a = "''GenieKey '' @ replaceGenieKey (apiKey config)"
  have ne: "''Authorization'' \<noteq> ''Content-Type''" by simp
  have c: "filter (\<lambda>(k, v). namesAuthorization k)
             (filter (\<lambda>(k, v). k \<noteq> ''Authorization'' \<and> k \<noteq> ''Content-Type'') (spread [] ?h)) =
           otherSpellings ?h"
    unfolding otherSpellings_def filter_filter
    by (rule filter_cong) (use namesAuthorization_defaults in auto)
  have "filter (\<lambda>(k, v). namesAuthorization k)
          (spread [(''Authorization'', ?a), (''Content-Type'', ''application/json'')] ?h) =
        (''Authorization'', case map_of (rev ?h) ''Authorization'' of None \<Rightarrow> ?a | Some w \<Rightarrow> w) #
        otherSpellings ?h"
    unfolding spread_defaults[OF ne] using c namesAuthorization_defaults by simp
  then show ?thesis
    by (simp add: fst_request authorizationHeaders_def constructor_def headersOf_def)
qed

lemma authorizationHeaders_no_headers:
  assumes "headers options = None"
  shows "map (authorizationHeaders \<circ> snd) (fst (request (constructor config) fetch endpoint options)) =
     [[''GenieKey '' @ replaceGenieKey (apiKey config)]]"
  unfolding authorizationHeaders_request
  using assms by (simp add: headersOf_def otherSpellings_def spread_def)

lemma otherSpellings_empty:
  "otherSpellings h = [] \<longleftrightarrow>
     list_all (\<lambda>(k, v). namesAuthorization k \<longrightarrow> k = ''Authorization'') h"
proof -
  have "otherSpellings h = [] \<longleftrightarrow>
      (\<forall>k \<in> fst ` set (spread [] h). \<not> (namesAuthorization k \<and> k \<noteq> ''Authorization''))"
    unfolding otherSpellings_def filter_empty_conv by force
  also have "\<dots> \<longleftrightarrow> (\<forall>k \<in> fst ` set h. \<not> (namesAuthorization k \<and> k \<noteq> ''Authorization''))"
    unfolding keys_spread by simp
  also have "\<dots> \<longleftrightarrow> list_all (\<lambda>(k, v). namesAuthorization k \<longrightarrow> k = ''Authorization'') h"
    unfolding list_all_iff by force
  finally show ?thesis .
qed

subsection \<open>The handlers of the alert details\<close>

lemma snd_getAlertDetailsTool_error:
  "snd (getAlert client fetch identifier) = Inl error \<Longrightarrow>
   snd (getAlertDetailsTool client fetch identifier) = toolCatch GetAlertDetails error"
  by (cases "getAlert client fetch identifier") (simp add: getAlertDetailsTool_def toolHandler_def)

lemma snd_alertDetailsResource_error:
  "identifier \<noteq> [] \<Longrightarrow> snd (getAlert client fetch identifier) = Inl error \<Longrightarrow>
   snd (alertDetailsResource stringify client fetch href (Some (Single identifier))) =
     Inl (Error (''Failed to fetch alert details: '' @ errorMessage error))"
  by (cases "getAlert client fetch identifier")
    (simp add: alertDetailsResource_def resourceHandler_def firstValue_def)

lemma snd_request_stub:
  "snd (request this (stubRemote response) endpoint options) =
     (if ok response then json' response
      else case text' response of
             Inl e \<Rightarrow> Inl e
           | Inr errorText \<Rightarrow>
               Inl (Error (''OpsGenie API error: '' @ digits (status response) @ '' '' @
                           statusText response @ '' - '' @ errorText)))"
  by (simp add: request_def Let_def stubRemote_def split: option.splits BodyInit.splits)

lemma snd_request_failing:
  "snd (request this (failingRemote e) endpoint options) = Inl e"
  by (simp add: request_def Let_def failingRemote_def split: option.splits BodyInit.splits)

lemma sublist_message: "sublist m (formatAlertDetails (alert\<lparr>message := Some m\<rparr>))"
proof (cases "m = []")
  case True
  then show ?thesis by simp
next
  case False
  have "formatAlertDetails (alert\<lparr>message := Some m\<rparr>) =
      (''Alert Details:'' @ [CHR 0x0A] @ ''ID: '' @ id' alert @ [CHR 0x0A] @ ''Message: '') @ m @
      ([CHR 0x0A] @
     ''Description: '' @ orNA (description alert) @ [CHR 0x0A] @
     ''Status: '' @ orNA (status' alert) @ [CHR 0x0A] @
     ''Priority: '' @ orNA (priority alert) @ [CHR 0x0A] @
     ''Created At: '' @ orNA (createdAt alert) @ [CHR 0x0A] @
     ''Updated At: '' @ orNA (updatedAt alert) @ [CHR 0x0A] @
     ''Owner: '' @ orNA (owner alert) @ [CHR 0x0A] @
     ''Tags: '' @ orNA (map_option (join '', '') (tags alert)) @ [CHR 0x0A] @
     ''Responders: '' @
       orNA (map_option (\<lambda>rs. join '', '' (map (\<lambda>r. r_type r @ '':'' @ r_id r) rs)) (responders alert)) @
       [CHR 0x0A] @
     ''Acknowledged: '' @ yesNo (acknowledged alert) @ [CHR 0x0A] @
     ''Is Seen: '' @ yesNo (isSeen alert) @ [CHR 0x0A] @
     ''Snoozed: '' @ yesNo (snoozed alert))"
    using False by (simp add: formatAlertDetails_def orNA_def)
  then show ?thesis
    by (simp only: sublist_appendI)
qed

subsection \<open>Resolving the URI of a resource\<close>

lemma readResource_A1:
  assumes "parseURL ''opsgenie://alerts/A1'' = Some ''opsgenie://alerts/A1''"
  shows "readResource parseURL ''opsgenie://alerts/A1'' =
           Inr (''opsgenie://alerts/A1'', AlertDetails, [(''alertId'', Single ''A1'')])"
  using assms by (simp add: readResource_def registeredResources_def registeredResourceTemplates_def)

lemma readResource_recent:
  assumes "parseURL uri = Some ''opsgenie://alerts/recent''"
  shows "readResource parseURL uri = Inr (''opsgenie://alerts/recent'', RecentAlerts, [])"
  using assms by (simp add: readResource_def registeredResources_def)

lemma readResource_undecoded:
  assumes "parseURL uri = Some ''opsgenie://alerts/a%20b''"
  shows "readResource parseURL uri =
           Inr (''opsgenie://alerts/a%20b'', AlertDetails, [(''alertId'', Single ''a%20b'')])"
  using assms by (simp add: readResource_def registeredResources_def registeredResourceTemplates_def)

subsection \<open>The default base URL\<close>

lemma default_baseUrl:
  "CHR ''?'' \<notin> set (this_baseUrl (constructor \<lparr>apiKey = k, baseUrl = None\<rparr>))"
  "CHR ''#'' \<notin> set (this_baseUrl (constructor \<lparr>apiKey = k, baseUrl = None\<rparr>))"
  by (simp_all add: constructor_def)

section \<open>Properties\<close>

subsection \<open>C1: the keys of the search query\<close>

text \<open>
  C1, as the code has it. \<^verbatim>\<open>searchAlerts\<close> issues one request, to the base URL followed
  by \<^verbatim>\<open>/v2/alerts?\<close> and the serialised search parameters; the keys of the query string
  of that endpoint, and of the whole URL when the base URL has no \<^verbatim>\<open>?\<close> and no
  \<^verbatim>\<open>#\<close>, are exactly the names of those parameters, each at most once. A pair \<open>(k, v)\<close> is among the parameters if and only if \<open>k\<close> names
  a string field (\<^verbatim>\<open>query\<close>, \<^verbatim>\<open>searchIdentifier\<close>, \<^verbatim>\<open>searchIdentifierType\<close>,
  \<^verbatim>\<open>sort\<close>, \<^verbatim>\<open>order\<close>) that the caller supplied with the non-empty value \<open>v\<close>, or a
  numeric field (\<^verbatim>\<open>offset\<close>, \<^verbatim>\<open>limit\<close>) that the caller supplied and \<open>v\<close> is what
  \<^verbatim>\<open>String\<close> prints for it. An omitted field gives no key, and neither does a string
  field supplied as the empty string.
\<close>

theorem searchAlerts_query_keys:
  "map fst (fst (searchAlerts this fetch params)) =
     [this_baseUrl this @ ''/v2/alerts?'' @ toString (searchAlertsSearch params)] \<and>
   map queryKeys (endpoints this (fst (searchAlerts this fetch params))) =
     [map fst (searchAlertsSearch params)] \<and>
   distinct (map fst (searchAlertsSearch params)) \<and>
   (\<forall>k v. (k, v) \<in> set (searchAlertsSearch params) \<longleftrightarrow>
      (k = ''query'' \<and> query params = Some v \<and> v \<noteq> []) \<or>
      (k = ''searchIdentifier'' \<and> searchIdentifier params = Some v \<and> v \<noteq> []) \<or>
      (k = ''searchIdentifierType'' \<and> searchIdentifierType params = Some v \<and> v \<noteq> []) \<or>
      (k = ''offset'' \<and> map_option String' (offset params) = Some v) \<or>
      (k = ''limit'' \<and> map_option String' (limit params) = Some v) \<or>
      (k = ''sort'' \<and> sort' params = Some v \<and> v \<noteq> []) \<or>
      (k = ''order'' \<and> order params = Some v \<and> v \<noteq> [])) \<and>
   (CHR ''?'' \<notin> set (this_baseUrl this) \<and> CHR ''#'' \<notin> set (this_baseUrl this) \<longrightarrow>
      map (queryKeys \<circ> fst) (fst (searchAlerts this fetch params)) =
        [map fst (searchAlertsSearch params)])"
proof -
  have e: "map (formEncode \<circ> fst) (searchAlertsSearch params) = map fst (searchAlertsSearch params)"
    by (rule map_cong[OF refl]) (auto dest: formEncode_searchKeys)
  have k: "queryKeys (p @ ''/v2/alerts?'' @ toString (searchAlertsSearch params)) =
             map fst (searchAlertsSearch params)"
    if "CHR ''?'' \<notin> set p" and "CHR ''#'' \<notin> set p" for p
  proof -
    have "CHR ''?'' \<notin> set (p @ ''/v2/alerts'')" and "CHR ''#'' \<notin> set (p @ ''/v2/alerts'')"
      using that by simp_all
    from queryKeys_toString[OF this, of "searchAlertsSearch params"] show ?thesis
      by (simp add: e)
  qed
  have 1: "map fst (fst (searchAlerts this fetch params)) =
      [this_baseUrl this @ ''/v2/alerts?'' @ toString (searchAlertsSearch params)]"
    by (simp add: searchAlerts_def urls_request)
  have 2: "map queryKeys (endpoints this (fst (searchAlerts this fetch params))) =
      [map fst (searchAlertsSearch params)]"
    using k[of "[]"] by (simp add: searchAlerts_def endpoints_request)
  have 3: "map (queryKeys \<circ> fst) (fst (searchAlerts this fetch params)) =
      [map fst (searchAlertsSearch params)]"
    if "CHR ''?'' \<notin> set (this_baseUrl this) \<and> CHR ''#'' \<notin> set (this_baseUrl this)"
    using k[of "this_baseUrl this"] that by (simp add: searchAlerts_def fst_request)
  show ?thesis
    using 1 2 3 searchAlertsSearch_distinct searchAlertsSearch_mem by simp
qed

text \<open>
  C1, an instance: with the default base URL, the query \<^verbatim>\<open>status:open\<close>, the offset 0 and
  an empty \<^verbatim>\<open>order\<close>, the keys of the query string are \<^verbatim>\<open>query\<close> and \<^verbatim>\<open>offset\<close>.
\<close>

theorem searchAlerts_query_keys_witness:
  "CHR ''?'' \<notin> set (this_baseUrl (constructor \<lparr>apiKey = ''k'', baseUrl = None\<rparr>)) \<and>
   CHR ''#'' \<notin> set (this_baseUrl (constructor \<lparr>apiKey = ''k'', baseUrl = None\<rparr>)) \<and>
   map (queryKeys \<circ> fst) (fst (searchAlerts (constructor \<lparr>apiKey = ''k'', baseUrl = None\<rparr>)
       (stubRemote \<lparr>status = 200, statusText = ''OK'', text' = Inr [], json' = Inr JNull\<rparr>)
       \<lparr>query = Some ''status:open'', searchIdentifier = None, searchIdentifierType = None,
        offset = Some (Number ''0''), limit = None, sort' = None, order = Some []\<rparr>)) =
     [[''query'', ''offset'']] \<and>
   map fst (fst (searchAlerts (constructor \<lparr>apiKey = ''k'', baseUrl = None\<rparr>)
       (stubRemote \<lparr>status = 200, statusText = ''OK'', text' = Inr [], json' = Inr JNull\<rparr>)
       \<lparr>query = Some ''status:open'', searchIdentifier = None, searchIdentifierType = None,
        offset = Some (Number ''0''), limit = None, sort' = None, order = Some []\<rparr>)) =
     [''https://api.opsgenie.com/v2/alerts?query=status%3Aopen&offset=0'']"
proof -
  let ?p = "\<lparr>query = Some ''status:open'', searchIdentifier = None, searchIdentifierType = None,
        offset = Some (Number ''0''), limit = None, sort' = None, order = Some []\<rparr>"
  have s: "searchAlertsSearch ?p = [(''query'', ''status:open''), (''offset'', ''0'')]"
    by (simp add: searchAlertsSearch_def appendIfTruthy_def appendIfDefined_def append'_def)
  have t: "toString [(''query'', ''status:open''), (''offset'', ''0'')] = ''query=status%3Aopen&offset=0''"
    by (simp add: toString_def formEncode_def formByte_def isAlphaNum_def percentByte_def hexDigit_def)
  have b: "this_baseUrl (constructor \<lparr>apiKey = ''k'', baseUrl = None\<rparr>) = ''https://api.opsgenie.com''"
    by (simp add: constructor_def)
  note T = searchAlerts_query_keys[of "constructor \<lparr>apiKey = ''k'', baseUrl = None\<rparr>"
        "stubRemote \<lparr>status = 200, statusText = ''OK'', text' = Inr [], json' = Inr JNull\<rparr>" ?p]
  have h: "CHR ''?'' \<notin> set (this_baseUrl (constructor \<lparr>apiKey = ''k'', baseUrl = None\<rparr>)) \<and>
           CHR ''#'' \<notin> set (this_baseUrl (constructor \<lparr>apiKey = ''k'', baseUrl = None\<rparr>))"
    using default_baseUrl[of "''k''"] by simp
  show ?thesis
    using conjunct1[OF T] mp[OF conjunct2[OF conjunct2[OF conjunct2[OF conjunct2[OF T]]]] h] h
    unfolding s t b by simp
qed

text \<open>
  C1 as stated fails: a caller who supplies \<^verbatim>\<open>query\<close> as the empty string gets the URL
  \<^verbatim>\<open>https://api.opsgenie.com/v2/alerts?\<close>, whose query string has no key at all, although
  the field was defined in the input.
\<close>

theorem searchAlerts_empty_query_dropped:
  "map fst (fst (searchAlerts (constructor \<lparr>apiKey = ''k'', baseUrl = None\<rparr>)
       (stubRemote \<lparr>status = 200, statusText = ''OK'', text' = Inr '''', json' = Inr JNull\<rparr>)
       \<lparr>query = Some '''', searchIdentifier = None, searchIdentifierType = None,
        offset = None, limit = None, sort' = None, order = None\<rparr>)) =
     [''https://api.opsgenie.com/v2/alerts?''] \<and>
   map (queryKeys \<circ> fst) (fst (searchAlerts (constructor \<lparr>apiKey = ''k'', baseUrl = None\<rparr>)
       (stubRemote \<lparr>status = 200, statusText = ''OK'', text' = Inr '''', json' = Inr JNull\<rparr>)
       \<lparr>query = Some '''', searchIdentifier = None, searchIdentifierType = None,
        offset = None, limit = None, sort' = None, order = None\<rparr>)) = [[]]"
  by (simp add: searchAlerts_def fst_request constructor_def searchAlertsSearch_def
      appendIfTruthy_def appendIfDefined_def toString_def queryKeys_def queryParameters_def
      urlQuery_def)

subsection \<open>C2: errors in tool handlers and in resource handlers\<close>

text \<open>
  C2. When the try block of a tool handler throws an \<^verbatim>\<open>Error\<close> with message \<open>m\<close>, the
  handler of every tool returns a result with \<^verbatim>\<open>isError: true\<close> and a single text block,
  the label of the tool followed by \<open>m\<close> unchanged; so does the handler of
  \<^verbatim>\<open>get-alert-details\<close> whenever \<^verbatim>\<open>getAlert\<close> throws that error. When the try block
  of a resource handler throws it, the handler of every resource throws an \<^verbatim>\<open>Error\<close>
  (its label followed by \<open>m\<close>) and returns nothing; so does the handler of
  \<^verbatim>\<open>alert-details\<close> for a non-empty identifier whenever \<^verbatim>\<open>getAlert\<close> throws.
\<close>

theorem handler_errors_surface:
  assumes "snd (getAlert client fetch identifier) = Inl (Error m)" and "identifier \<noteq> []"
  shows "toolHandler tool (Inl (Error m)) =
           \<lparr> content = [TextContent (errorLabel tool @ m)], isError = Some True \<rparr> \<and>
         snd (getAlertDetailsTool client fetch identifier) =
           \<lparr> content = [TextContent (''Error fetching alert details: '' @ m)], isError = Some True \<rparr> \<and>
         resourceHandler resource (Inl (Error m) :: thrown + ResourceContents list) =
           Inl (Error (failLabel resource @ m)) \<and>
         snd (alertDetailsResource stringify client fetch href (Some (Single identifier))) =
           Inl (Error (''Failed to fetch alert details: '' @ m))"
  using assms snd_getAlertDetailsTool_error[OF assms(1)] snd_alertDetailsResource_error[OF assms(2,1)]
  by (simp add: toolHandler_def toolCatch_def errorMessage_def resourceHandler_def)

text \<open>
  C2, an instance: the remote answers 404 \<^verbatim>\<open>Not Found\<close> with the body \<^verbatim>\<open>not found\<close>. The
  tool \<^verbatim>\<open>get-alert-details\<close> returns a flagged result whose text contains \<^verbatim>\<open>404\<close> and
  \<^verbatim>\<open>not found\<close>; the resource \<^verbatim>\<open>alert-details\<close> throws.
\<close>

theorem handler_errors_surface_witness:
  "snd (getAlert (constructor \<lparr>apiKey = ''k'', baseUrl = None\<rparr>)
      (stubRemote \<lparr>status = 404, statusText = ''Not Found'', text' = Inr ''not found'',
                   json' = Inl (Error ''Unexpected token'') :: thrown + GetAlertResponse\<rparr>) ''A1'') =
     Inl (Error ''OpsGenie API error: 404 Not Found - not found'') \<and>
   ''A1'' \<noteq> [] \<and>
   snd (getAlertDetailsTool (constructor \<lparr>apiKey = ''k'', baseUrl = None\<rparr>)
      (stubRemote \<lparr>status = 404, statusText = ''Not Found'', text' = Inr ''not found'',
                   json' = Inl (Error ''Unexpected token'')\<rparr>) ''A1'') =
     \<lparr> content = [TextContent ''Error fetching alert details: OpsGenie API error: 404 Not Found - not found''],
       isError = Some True \<rparr> \<and>
   sublist ''404'' ''Error fetching alert details: OpsGenie API error: 404 Not Found - not found'' \<and>
   sublist ''not found'' ''Error fetching alert details: OpsGenie API error: 404 Not Found - not found'' \<and>
   snd (alertDetailsResource (\<lambda>alert. ''{}'') (constructor \<lparr>apiKey = ''k'', baseUrl = None\<rparr>)
      (stubRemote \<lparr>status = 404, statusText = ''Not Found'', text' = Inr ''not found'',
                   json' = Inl (Error ''Unexpected token'')\<rparr>) ''opsgenie://alerts/A1'' (Some (Single ''A1''))) =
     Inl (Error ''Failed to fetch alert details: OpsGenie API error: 404 Not Found - not found'')"
proof -
  let ?c = "constructor \<lparr>apiKey = ''k'', baseUrl = None\<rparr>"
  let ?f = "stubRemote \<lparr>status = 404, statusText = ''Not Found'', text' = Inr ''not found'',
                   json' = Inl (Error ''Unexpected token'') :: thrown + GetAlertResponse\<rparr>"
  have g: "snd (getAlert ?c ?f ''A1'') = Inl (Error ''OpsGenie API error: 404 Not Found - not found'')"
    by (simp add: getAlert_def snd_request_stub ok_def hexDigit_def)
  have n: "''A1'' \<noteq> []" by simp
  have s1: "sublist ''404'' (''Error fetching alert details: OpsGenie API error: '' @ ''404'' @ '' Not Found - not found'')"
    by (rule sublist_appendI)
  have s2: "sublist ''not found'' (''Error fetching alert details: OpsGenie API error: 404 Not Found - '' @ ''not found'' @ [])"
    by (rule sublist_appendI)
  show ?thesis
    using g n s1 s2 handler_errors_surface[OF g n, of GetAlertDetails AlertDetails "\<lambda>alert. ''{}''" "''opsgenie://alerts/A1''"]
    by simp
qed

subsection \<open>C3: the error of the adapter for a response that is not a success\<close>

text \<open>
  C3, as the code has it. When the call of \<^verbatim>\<open>fetch\<close> that \<^verbatim>\<open>request\<close> makes resolves to
  a response whose status is outside 200 to 299 and whose body reads as the text
  \<open>errorText\<close>, \<^verbatim>\<open>request\<close> has made that one call and throws one \<^verbatim>\<open>Error\<close> whose
  message is \<^verbatim>\<open>OpsGenie API error: \<close>, the status in decimal digits, a space, the status
  text, \<^verbatim>\<open> - \<close> and the whole of \<open>errorText\<close>. The error has a message and no other
  field.
\<close>

theorem request_non_success:
  assumes "map (\<lambda>(url, init). fetch url init) (fst (request this fetch endpoint options)) = [Resolves response]"
    and "\<not> ok response"
    and "text' response = Inr errorText"
  shows "snd (request this fetch endpoint options) =
           Inl (Error (''OpsGenie API error: '' @ digits (status response) @ '' '' @
                       statusText response @ '' - '' @ errorText)) \<and>
         length (fst (request this fetch endpoint options)) = 1"
  using assms by (simp add: request_def Let_def split: option.splits BodyInit.splits)

text \<open>
  C3, an instance: the response 404 \<^verbatim>\<open>Not Found\<close> with the body \<^verbatim>\<open>not found\<close>.
\<close>

theorem request_non_success_witness:
  "map (\<lambda>(url, init). stubRemote \<lparr>status = 404, statusText = ''Not Found'', text' = Inr ''not found'', json' = Inr JNull\<rparr> url init)
     (fst (request (constructor \<lparr>apiKey = ''k'', baseUrl = None\<rparr>)
        (stubRemote \<lparr>status = 404, statusText = ''Not Found'', text' = Inr ''not found'', json' = Inr JNull\<rparr>)
        ''/v2/alerts/A1?identifierType=id'' noOptions)) =
     [Resolves \<lparr>status = 404, statusText = ''Not Found'', text' = Inr ''not found'', json' = Inr JNull\<rparr>] \<and>
   \<not> ok \<lparr>status = 404, statusText = ''Not Found'', text' = Inr ''not found'', json' = Inr JNull\<rparr> \<and>
   snd (request (constructor \<lparr>apiKey = ''k'', baseUrl = None\<rparr>)
        (stubRemote \<lparr>status = 404, statusText = ''Not Found'', text' = Inr ''not found'', json' = Inr JNull\<rparr>)
        ''/v2/alerts/A1?identifierType=id'' noOptions) =
     Inl (Error ''OpsGenie API error: 404 Not Found - not found'')"
proof -
  let ?r = "\<lparr>status = 404, statusText = ''Not Found'', text' = Inr ''not found'', json' = Inr JNull\<rparr>"
  let ?c = "constructor \<lparr>apiKey = ''k'', baseUrl = None\<rparr>"
  have h1: "map (\<lambda>(url, init). stubRemote ?r url init)
     (fst (request ?c (stubRemote ?r) ''/v2/alerts/A1?identifierType=id'' noOptions)) = [Resolves ?r]"
    by (simp add: fst_request stubRemote_def)
  have h2: "\<not> ok ?r" by (simp add: ok_def)
  have h3: "text' ?r = Inr ''not found''" by simp
  show ?thesis
    using request_non_success[OF h1 h2 h3] h1 h2 by (simp add: hexDigit_def)
qed

text \<open>
  C3 as stated fails: the error is not structured. Two responses that differ in their
  status text and in their body (\<^verbatim>\<open>a - b\<close> with \<^verbatim>\<open>c\<close>, and \<^verbatim>\<open>a\<close> with \<^verbatim>\<open>b - c\<close>)
  make \<^verbatim>\<open>request\<close> throw the same error, so the error does not carry the status text and
  the body as such.
\<close>

theorem request_error_conflates:
  "snd (request (constructor \<lparr>apiKey = ''k'', baseUrl = None\<rparr>)
        (stubRemote \<lparr>status = 404, statusText = ''a - b'', text' = Inr ''c'', json' = Inr JNull\<rparr>)
        ''/v2/alerts'' noOptions) =
     Inl (Error ''OpsGenie API error: 404 a - b - c'') \<and>
   snd (request (constructor \<lparr>apiKey = ''k'', baseUrl = None\<rparr>)
        (stubRemote \<lparr>status = 404, statusText = ''a'', text' = Inr ''b - c'', json' = Inr JNull\<rparr>)
        ''/v2/alerts'' noOptions) =
     Inl (Error ''OpsGenie API error: 404 a - b - c'')"
  by (simp add: request_def Let_def stubRemote_def noOptions_def ok_def hexDigit_def)

subsection \<open>C4: the note in the body of close, acknowledge and unacknowledge\<close>

text \<open>
  C4, as the code has it. \<^verbatim>\<open>closeAlert\<close>, \<^verbatim>\<open>acknowledgeAlert\<close> and
  \<^verbatim>\<open>unacknowledgeAlert\<close> send the body \<^verbatim>\<open>{"note":...}\<close> when the caller gave a non-empty
  note and the body \<^verbatim>\<open>{}\<close> otherwise, that is, for an absent note and for the empty
  string alike. \<^verbatim>\<open>closeAlert("A1")\<close> sends \<^verbatim>\<open>{}\<close> and \<^verbatim>\<open>closeAlert("A1","done")\<close>
  sends \<^verbatim>\<open>{"note":"done"}\<close>.
\<close>

theorem note_sent_when_truthy:
  "map (wireBody \<circ> snd) (fst (closeAlert this fetch i note')) =
     [Some (case note' of
        None \<Rightarrow> ''{}''
      | Some n \<Rightarrow> if n = [] then ''{}'' else ''{'' @ quoteJSONString ''note'' @ '':'' @ quoteJSONString n @ ''}'')] \<and>
   map (wireBody \<circ> snd) (fst (acknowledgeAlert this fetch i note')) =
     [Some (case note' of
        None \<Rightarrow> ''{}''
      | Some n \<Rightarrow> if n = [] then ''{}'' else ''{'' @ quoteJSONString ''note'' @ '':'' @ quoteJSONString n @ ''}'')] \<and>
   map (wireBody \<circ> snd) (fst (unacknowledgeAlert this fetch i note')) =
     [Some (case note' of
        None \<Rightarrow> ''{}''
      | Some n \<Rightarrow> if n = [] then ''{}'' else ''{'' @ quoteJSONString ''note'' @ '':'' @ quoteJSONString n @ ''}'')] \<and>
   map (wireBody \<circ> snd) (fst (closeAlert this fetch ''A1'' None)) = [Some ''{}''] \<and>
   map (wireBody \<circ> snd) (fst (closeAlert this fetch ''A1'' (Some ''done''))) =
     [Some (''{'' @ [CHR 0x22] @ ''note'' @ [CHR 0x22] @ '':'' @ [CHR 0x22] @ ''done'' @ [CHR 0x22] @ ''}'')]"
proof -
  have q: "quoteJSONString ''note'' = [CHR 0x22] @ ''note'' @ [CHR 0x22]"
          "quoteJSONString ''done'' = [CHR 0x22] @ ''done'' @ [CHR 0x22]"
    by (simp_all add: quoteJSONString_def quoteJSONChar_def)
  show ?thesis
    unfolding closeAlert_def acknowledgeAlert_def unacknowledgeAlert_def wireBody_sending
      JSON_stringify_withNote_empty
    using q by simp
qed

text \<open>
  C4 as stated fails: absence is not distinct from the empty string. \<^verbatim>\<open>closeAlert\<close> with
  the note \<^verbatim>\<open>""\<close> issues the very request it issues with no note, with the body
  \<^verbatim>\<open>{}\<close>.
\<close>

theorem closeAlert_empty_note_as_absent:
  "fst (closeAlert (constructor \<lparr>apiKey = ''k'', baseUrl = None\<rparr>)
       (stubRemote \<lparr>status = 200, statusText = ''OK'', text' = Inr '''', json' = Inr JNull\<rparr>) ''A1'' (Some '''')) =
   fst (closeAlert (constructor \<lparr>apiKey = ''k'', baseUrl = None\<rparr>)
       (stubRemote \<lparr>status = 200, statusText = ''OK'', text' = Inr '''', json' = Inr JNull\<rparr>) ''A1'' None) \<and>
   map (wireBody \<circ> snd) (fst (closeAlert (constructor \<lparr>apiKey = ''k'', baseUrl = None\<rparr>)
       (stubRemote \<lparr>status = 200, statusText = ''OK'', text' = Inr '''', json' = Inr JNull\<rparr>) ''A1'' (Some ''''))) =
     [Some ''{}'']"
  by (simp add: closeAlert_def fst_request sending_def withNote_def wireBody_def)

subsection \<open>C5: the authorization header\<close>

text \<open>
  C5, as the code has it. For every configured key, each of the fourteen operations of
  the client issues one request, and the options it hands to \<^verbatim>\<open>fetch\<close> hold exactly one
  header that \<^verbatim>\<open>fetch\<close> takes for \<^verbatim>\<open>Authorization\<close>: its value is \<^verbatim>\<open>GenieKey \<close>
  followed by the configured key with one leading \<^verbatim>\<open>GenieKey\<close> and the white space
  after it removed. \<^verbatim>\<open>request\<close> itself, given options that have headers, merges them over
  its two defaults by the exact name of the property, the value written last winning. Of
  the headers that \<^verbatim>\<open>fetch\<close> then takes for \<^verbatim>\<open>Authorization\<close>, the first has the value
  that the call gives for the spelling \<^verbatim>\<open>Authorization\<close>, when it gives one, and the
  computed value otherwise; it is followed by the value of each header of the call that
  names \<^verbatim>\<open>Authorization\<close> in another spelling. There is no such other value if and only
  if every header of the call that names \<^verbatim>\<open>Authorization\<close> is spelled so. For a key
  that does not start with white space, computing the authorization value of an
  authorization value gives the same value again.
\<close>

theorem authorization_header:
  "(map (authorizationHeaders \<circ> snd) (fst (getAlert (constructor config) fetch i)) =
      [[''GenieKey '' @ replaceGenieKey (apiKey config)]] \<and>
    map (authorizationHeaders \<circ> snd) (fst (searchAlerts (constructor config) fetch searchParams)) =
      [[''GenieKey '' @ replaceGenieKey (apiKey config)]] \<and>
    map (authorizationHeaders \<circ> snd) (fst (countAlerts (constructor config) fetch countParams)) =
      [[''GenieKey '' @ replaceGenieKey (apiKey config)]] \<and>
    map (authorizationHeaders \<circ> snd) (fst (getAlertNotes (constructor config) fetch i notesParams)) =
      [[''GenieKey '' @ replaceGenieKey (apiKey config)]] \<and>
    map (authorizationHeaders \<circ> snd) (fst (createAlert (constructor config) fetch alertData)) =
      [[''GenieKey '' @ replaceGenieKey (apiKey config)]] \<and>
    map (authorizationHeaders \<circ> snd) (fst (closeAlert (constructor config) fetch i note')) =
      [[''GenieKey '' @ replaceGenieKey (apiKey config)]] \<and>
    map (authorizationHeaders \<circ> snd) (fst (acknowledgeAlert (constructor config) fetch i note')) =
      [[''GenieKey '' @ replaceGenieKey (apiKey config)]] \<and>
    map (authorizationHeaders \<circ> snd) (fst (snoozeAlert (constructor config) fetch i snoozeData)) =
      [[''GenieKey '' @ replaceGenieKey (apiKey config)]] \<and>
    map (authorizationHeaders \<circ> snd) (fst (unacknowledgeAlert (constructor config) fetch i note')) =
      [[''GenieKey '' @ replaceGenieKey (apiKey config)]] \<and>
    map (authorizationHeaders \<circ> snd) (fst (assignAlert (constructor config) fetch i assignData)) =
      [[''GenieKey '' @ replaceGenieKey (apiKey config)]] \<and>
    map (authorizationHeaders \<circ> snd) (fst (escalateAlert (constructor config) fetch i escalationData)) =
      [[''GenieKey '' @ replaceGenieKey (apiKey config)]] \<and>
    map (authorizationHeaders \<circ> snd) (fst (addNoteToAlert (constructor config) fetch i noteData)) =
      [[''GenieKey '' @ replaceGenieKey (apiKey config)]] \<and>
    map (authorizationHeaders \<circ> snd) (fst (addTagsToAlert (constructor config) fetch i tagList note')) =
      [[''GenieKey '' @ replaceGenieKey (apiKey config)]] \<and>
    map (authorizationHeaders \<circ> snd) (fst (removeTagsFromAlert (constructor config) fetch i tagList note')) =
      [[''GenieKey '' @ replaceGenieKey (apiKey config)]]) \<and>
   map (authorizationHeaders \<circ> snd) (fst (request (constructor config) fetch endpoint options)) =
     [(case map_of (rev (headersOf options)) ''Authorization'' of
         None \<Rightarrow> ''GenieKey '' @ replaceGenieKey (apiKey config)
       | Some v \<Rightarrow> v) #
      map snd (otherSpellings (headersOf options))] \<and>
   (otherSpellings (headersOf options) = [] \<longleftrightarrow>
      list_all (\<lambda>(k, v). namesAuthorization k \<longrightarrow> k = ''Authorization'') (headersOf options)) \<and>
   map (\<lambda>(url, init). map_of (headersOf init))
     (fst (request (constructor config) fetch endpoint options)) =
     [map_of [(''Authorization'', ''GenieKey '' @ replaceGenieKey (apiKey config)),
              (''Content-Type'', ''application/json'')] ++
      map_of (rev (headersOf options))] \<and>
   (whiteSpaceLen key = 0 \<longrightarrow> authorization (authorization key) = authorization key)"
proof -
  note n = authorizationHeaders_no_headers[of _ config fetch]
  have o1: "map (authorizationHeaders \<circ> snd) (fst (getAlert (constructor config) fetch i)) =
      [[''GenieKey '' @ replaceGenieKey (apiKey config)]]"
    unfolding getAlert_def by (rule n) (simp add: noOptions_def)
  have o2: "map (authorizationHeaders \<circ> snd) (fst (searchAlerts (constructor config) fetch searchParams)) =
      [[''GenieKey '' @ replaceGenieKey (apiKey config)]]"
    unfolding searchAlerts_def by (rule n) (simp add: noOptions_def)
  have o3: "map (authorizationHeaders \<circ> snd) (fst (countAlerts (constructor config) fetch countParams)) =
      [[''GenieKey '' @ replaceGenieKey (apiKey config)]]"
    unfolding countAlerts_def by (rule n) (simp add: noOptions_def)
  have o4: "map (authorizationHeaders \<circ> snd) (fst (getAlertNotes (constructor config) fetch i notesParams)) =
      [[''GenieKey '' @ replaceGenieKey (apiKey config)]]"
    unfolding getAlertNotes_def by (rule n) (simp add: noOptions_def)
  have o5: "map (authorizationHeaders \<circ> snd) (fst (createAlert (constructor config) fetch alertData)) =
      [[''GenieKey '' @ replaceGenieKey (apiKey config)]]"
    unfolding createAlert_def by (rule n) (simp add: sending_def)
  have o6: "map (authorizationHeaders \<circ> snd) (fst (closeAlert (constructor config) fetch i note')) =
      [[''GenieKey '' @ replaceGenieKey (apiKey config)]]"
    unfolding closeAlert_def by (rule n) (simp add: sending_def)
  have o7: "map (authorizationHeaders \<circ> snd) (fst (acknowledgeAlert (constructor config) fetch i note')) =
      [[''GenieKey '' @ replaceGenieKey (apiKey config)]]"
    unfolding acknowledgeAlert_def by (rule n) (simp add: sending_def)
  have o8: "map (authorizationHeaders \<circ> snd) (fst (snoozeAlert (constructor config) fetch i snoozeData)) =
      [[''GenieKey '' @ replaceGenieKey (apiKey config)]]"
    unfolding snoozeAlert_def by (rule n) (simp add: sending_def)
  have o9: "map (authorizationHeaders \<circ> snd) (fst (unacknowledgeAlert (constructor config) fetch i note')) =
      [[''GenieKey '' @ replaceGenieKey (apiKey config)]]"
    unfolding unacknowledgeAlert_def by (rule n) (simp add: sending_def)
  have o10: "map (authorizationHeaders \<circ> snd) (fst (assignAlert (constructor config) fetch i assignData)) =
      [[''GenieKey '' @ replaceGenieKey (apiKey config)]]"
    unfolding assignAlert_def by (rule n) (simp add: sending_def)
  have o11: "map (authorizationHeaders \<circ> snd) (fst (escalateAlert (constructor config) fetch i escalationData)) =
      [[''GenieKey '' @ replaceGenieKey (apiKey config)]]"
    unfolding escalateAlert_def by (rule n) (simp add: sending_def)
  have o12: "map (authorizationHeaders \<circ> snd) (fst (addNoteToAlert (constructor config) fetch i noteData)) =
      [[''GenieKey '' @ replaceGenieKey (apiKey config)]]"
    unfolding addNoteToAlert_def by (rule n) (simp add: sending_def)
  have o13: "map (authorizationHeaders \<circ> snd) (fst (addTagsToAlert (constructor config) fetch i tagList note')) =
      [[''GenieKey '' @ replaceGenieKey (apiKey config)]]"
    unfolding addTagsToAlert_def by (rule n) (simp add: sending_def)
  have o14: "map (authorizationHeaders \<circ> snd) (fst (removeTagsFromAlert (constructor config) fetch i tagList note')) =
      [[''GenieKey '' @ replaceGenieKey (apiKey config)]]"
    unfolding removeTagsFromAlert_def by (rule n) (simp add: sending_def)
  have 3: "map (\<lambda>(url, init). map_of (headersOf init))
     (fst (request (constructor config) fetch endpoint options)) =
     [map_of [(''Authorization'', ''GenieKey '' @ replaceGenieKey (apiKey config)),
              (''Content-Type'', ''application/json'')] ++
      map_of (rev (headersOf options))]"
    by (simp add: fst_request constructor_def map_of_spread headersOf_def)
  have 4: "authorization (authorization key) = authorization key" if "whiteSpaceLen key = 0"
    using replace_canonical[OF whiteSpaceLen_replace[OF that]]
    by (simp add: authorization_def constructor_def)
  show ?thesis
    by (intro conjI impI)
      (rule o1 o2 o3 o4 o5 o6 o7 o8 o9 o10 o11 o12 o13 o14 authorizationHeaders_request
         otherSpellings_empty 3 4, (assumption)?)+
qed

text \<open>
  C5, an instance: the key \<^verbatim>\<open>GenieKey abc\<close> does not start with white space. Creating an
  alert carries the one authorization \<^verbatim>\<open>GenieKey abc\<close>, which is also the authorization
  value of that value. A call of \<^verbatim>\<open>request\<close> with the headers
  \<^verbatim>\<open>Authorization: Bearer x\<close> and \<^verbatim>\<open>Accept: text/plain\<close>, none of which is another
  spelling of \<^verbatim>\<open>Authorization\<close>, carries the one authorization \<^verbatim>\<open>Bearer x\<close>.
\<close>

theorem authorization_header_witness:
  "map (authorizationHeaders \<circ> snd)
     (fst (createAlert (constructor \<lparr>apiKey = ''GenieKey abc'', baseUrl = None\<rparr>)
        (stubRemote \<lparr>status = 200, statusText = ''OK'', text' = Inr [], json' = Inr JNull\<rparr>)
        (JObject [(''message'', JString ''CPU high'')]))) = [[''GenieKey abc'']] \<and>
   map (authorizationHeaders \<circ> snd)
     (fst (request (constructor \<lparr>apiKey = ''GenieKey abc'', baseUrl = None\<rparr>)
        (stubRemote \<lparr>status = 200, statusText = ''OK'', text' = Inr [], json' = Inr JNull\<rparr>)
        ''/v2/alerts''
        \<lparr>method' = None, body = None,
         headers = Some [(''Authorization'', ''Bearer x''), (''Accept'', ''text/plain'')]\<rparr>)) =
     [[''Bearer x'']] \<and>
   otherSpellings [(''Authorization'', ''Bearer x''), (''Accept'', ''text/plain'')] = [] \<and>
   whiteSpaceLen ''GenieKey abc'' = 0 \<and>
   authorization (authorization ''GenieKey abc'') = authorization ''GenieKey abc'' \<and>
   authorization ''GenieKey abc'' = ''GenieKey abc''"
proof -
  let ?o = "\<lparr>method' = None, body = None,
         headers = Some [(''Authorization'', ''Bearer x''), (''Accept'', ''text/plain'')]\<rparr>"
  have w: "whiteSpaceLen ''GenieKey abc'' = 0"
    by (simp add: asciiWhiteSpace_def whiteSpace3_def)
  have r: "replaceGenieKey ''GenieKey abc'' = ''abc''"
    by (simp add: replaceGenieKey_def asciiWhiteSpace_def whiteSpace3_def)
  have a: "authorization ''GenieKey abc'' = ''GenieKey abc''"
    by (simp add: authorization_def constructor_def r)
  have l: "list_all (\<lambda>(k, v). namesAuthorization k \<longrightarrow> k = ''Authorization'') (headersOf ?o)"
    by (simp add: headersOf_def namesAuthorization_def asciiLowerCase_def)
  note T = authorization_header[where config = "\<lparr>apiKey = ''GenieKey abc'', baseUrl = None\<rparr>"
      and fetch = "stubRemote \<lparr>status = 200, statusText = ''OK'', text' = Inr [], json' = Inr JNull\<rparr>"
      and alertData = "JObject [(''message'', JString ''CPU high'')]"
      and endpoint = "''/v2/alerts''" and options = ?o and key = "''GenieKey abc''"]
  note ops = T[THEN conjunct1]
  note create = ops[THEN conjunct2, THEN conjunct2, THEN conjunct2, THEN conjunct2, THEN conjunct1]
  note gen = T[THEN conjunct2]
  note req = gen[THEN conjunct1]
  note none = gen[THEN conjunct2, THEN conjunct1]
  note idem = gen[THEN conjunct2, THEN conjunct2, THEN conjunct2]
  have e: "otherSpellings (headersOf ?o) = []"
    using none l by (simp only:)
  show ?thesis
    using create req e idem w a by (simp add: r headersOf_def)
qed

text \<open>
  C5 as stated fails. A call that passes the header \<^verbatim>\<open>Authorization: Bearer x\<close> sends
  that value and not the computed one. A call that passes \<^verbatim>\<open>authorization: Bearer x\<close>
  hands two authorization values to \<^verbatim>\<open>fetch\<close>, the computed one and its own. And for the
  key \<^verbatim>\<open> k\<close>, which starts with a space, the authorization value is \<^verbatim>\<open>GenieKey  k\<close>
  while the authorization value of that value is \<^verbatim>\<open>GenieKey k\<close>.
\<close>

theorem authorization_overridden:
  "map (authorizationHeaders \<circ> snd)
     (fst (request (constructor \<lparr>apiKey = ''k'', baseUrl = None\<rparr>)
        (stubRemote \<lparr>status = 200, statusText = ''OK'', text' = Inr [], json' = Inr JNull\<rparr>)
        ''/v2/alerts''
        \<lparr>method' = None, body = None, headers = Some [(''Authorization'', ''Bearer x'')]\<rparr>)) =
     [[''Bearer x'']] \<and>
   map (authorizationHeaders \<circ> snd)
     (fst (request (constructor \<lparr>apiKey = ''k'', baseUrl = None\<rparr>)
        (stubRemote \<lparr>status = 200, statusText = ''OK'', text' = Inr [], json' = Inr JNull\<rparr>)
        ''/v2/alerts''
        \<lparr>method' = None, body = None, headers = Some [(''authorization'', ''Bearer x'')]\<rparr>)) =
     [[''GenieKey k'', ''Bearer x'']] \<and>
   authorization '' k'' = ''GenieKey  k'' \<and>
   authorization (authorization '' k'') = ''GenieKey k''"
  by (simp add: fst_request authorizationHeaders_def headersOf_def namesAuthorization_def
      asciiLowerCase_def constructor_def spread_def authorization_def
      replaceGenieKey_def asciiWhiteSpace_def)

subsection \<open>C6: the identifier type is pinned\<close>

text \<open>
  C6. Each of the eleven operations that identify an alert (fetch, list notes, close,
  acknowledge, unacknowledge, snooze, assign, escalate, add note, add tags, remove tags)
  issues, for every identifier and every other argument, one request whose endpoint has
  the query parameter \<^verbatim>\<open>identifierType=id\<close>; so has its whole URL when the base URL of
  the client has no \<^verbatim>\<open>?\<close> and no \<^verbatim>\<open>#\<close>.
\<close>

theorem identifierType_pinned:
  "(pinsIdentifierType (endpoints this (fst (getAlert this fetch i))) \<and>
    pinsIdentifierType (endpoints this (fst (getAlertNotes this fetch i params))) \<and>
    pinsIdentifierType (endpoints this (fst (closeAlert this fetch i note'))) \<and>
    pinsIdentifierType (endpoints this (fst (acknowledgeAlert this fetch i note'))) \<and>
    pinsIdentifierType (endpoints this (fst (unacknowledgeAlert this fetch i note'))) \<and>
    pinsIdentifierType (endpoints this (fst (snoozeAlert this fetch i snoozeData))) \<and>
    pinsIdentifierType (endpoints this (fst (assignAlert this fetch i assignData))) \<and>
    pinsIdentifierType (endpoints this (fst (escalateAlert this fetch i escalationData))) \<and>
    pinsIdentifierType (endpoints this (fst (addNoteToAlert this fetch i noteData))) \<and>
    pinsIdentifierType (endpoints this (fst (addTagsToAlert this fetch i tagList note'))) \<and>
    pinsIdentifierType (endpoints this (fst (removeTagsFromAlert this fetch i tagList note')))) \<and>
   (CHR ''?'' \<notin> set (this_baseUrl this) \<and> CHR ''#'' \<notin> set (this_baseUrl this) \<longrightarrow>
    pinsIdentifierType (map fst (fst (getAlert this fetch i))) \<and>
    pinsIdentifierType (map fst (fst (getAlertNotes this fetch i params))) \<and>
    pinsIdentifierType (map fst (fst (closeAlert this fetch i note'))) \<and>
    pinsIdentifierType (map fst (fst (acknowledgeAlert this fetch i note'))) \<and>
    pinsIdentifierType (map fst (fst (unacknowledgeAlert this fetch i note'))) \<and>
    pinsIdentifierType (map fst (fst (snoozeAlert this fetch i snoozeData))) \<and>
    pinsIdentifierType (map fst (fst (assignAlert this fetch i assignData))) \<and>
    pinsIdentifierType (map fst (fst (escalateAlert this fetch i escalationData))) \<and>
    pinsIdentifierType (map fst (fst (addNoteToAlert this fetch i noteData))) \<and>
    pinsIdentifierType (map fst (fst (addTagsToAlert this fetch i tagList note'))) \<and>
    pinsIdentifierType (map fst (fst (removeTagsFromAlert this fetch i tagList note'))))"
proof -
  note op = pins_operation[of _ this fetch i]
  have 1: "pinsIdentifierType (endpoints this (fst (getAlert this fetch i))) \<and>
      (CHR ''?'' \<notin> set (this_baseUrl this) \<and> CHR ''#'' \<notin> set (this_baseUrl this) \<longrightarrow>
       pinsIdentifierType (map fst (fst (getAlert this fetch i))))"
    unfolding getAlert_def using op[of "[]"] by simp
  have 2: "pinsIdentifierType (endpoints this (fst (getAlertNotes this fetch i params))) \<and>
      (CHR ''?'' \<notin> set (this_baseUrl this) \<and> CHR ''#'' \<notin> set (this_baseUrl this) \<longrightarrow>
       pinsIdentifierType (map fst (fst (getAlertNotes this fetch i params))))"
    unfolding getAlertNotes_def endpoints_request urls_request
    using pins_notes[of "[]" i params] pins_notes[of "this_baseUrl this" i params] by simp
  have 3: "pinsIdentifierType (endpoints this (fst (closeAlert this fetch i note'))) \<and>
      (CHR ''?'' \<notin> set (this_baseUrl this) \<and> CHR ''#'' \<notin> set (this_baseUrl this) \<longrightarrow>
       pinsIdentifierType (map fst (fst (closeAlert this fetch i note'))))"
    unfolding closeAlert_def using op[of "''/close''"] by simp
  have 4: "pinsIdentifierType (endpoints this (fst (acknowledgeAlert this fetch i note'))) \<and>
      (CHR ''?'' \<notin> set (this_baseUrl this) \<and> CHR ''#'' \<notin> set (this_baseUrl this) \<longrightarrow>
       pinsIdentifierType (map fst (fst (acknowledgeAlert this fetch i note'))))"
    unfolding acknowledgeAlert_def using op[of "''/acknowledge''"] by simp
  have 5: "pinsIdentifierType (endpoints this (fst (unacknowledgeAlert this fetch i note'))) \<and>
      (CHR ''?'' \<notin> set (this_baseUrl this) \<and> CHR ''#'' \<notin> set (this_baseUrl this) \<longrightarrow>
       pinsIdentifierType (map fst (fst (unacknowledgeAlert this fetch i note'))))"
    unfolding unacknowledgeAlert_def using op[of "''/unacknowledge''"] by simp
  have 6: "pinsIdentifierType (endpoints this (fst (snoozeAlert this fetch i snoozeData))) \<and>
      (CHR ''?'' \<notin> set (this_baseUrl this) \<and> CHR ''#'' \<notin> set (this_baseUrl this) \<longrightarrow>
       pinsIdentifierType (map fst (fst (snoozeAlert this fetch i snoozeData))))"
    unfolding snoozeAlert_def using op[of "''/snooze''"] by simp
  have 7: "pinsIdentifierType (endpoints this (fst (assignAlert this fetch i assignData))) \<and>
      (CHR ''?'' \<notin> set (this_baseUrl this) \<and> CHR ''#'' \<notin> set (this_baseUrl this) \<longrightarrow>
       pinsIdentifierType (map fst (fst (assignAlert this fetch i assignData))))"
    unfolding assignAlert_def using op[of "''/assign''"] by simp
  have 8: "pinsIdentifierType (endpoints this (fst (escalateAlert this fetch i escalationData))) \<and>
      (CHR ''?'' \<notin> set (this_baseUrl this) \<and> CHR ''#'' \<notin> set (this_baseUrl this) \<longrightarrow>
       pinsIdentifierType (map fst (fst (escalateAlert this fetch i escalationData))))"
    unfolding escalateAlert_def using op[of "''/escalate''"] by simp
  have 9: "pinsIdentifierType (endpoints this (fst (addNoteToAlert this fetch i noteData))) \<and>
      (CHR ''?'' \<notin> set (this_baseUrl this) \<and> CHR ''#'' \<notin> set (this_baseUrl this) \<longrightarrow>
       pinsIdentifierType (map fst (fst (addNoteToAlert this fetch i noteData))))"
    unfolding addNoteToAlert_def using op[of "''/notes''"] by simp
  have 10: "pinsIdentifierType (endpoints this (fst (addTagsToAlert this fetch i tagList note'))) \<and>
      (CHR ''?'' \<notin> set (this_baseUrl this) \<and> CHR ''#'' \<notin> set (this_baseUrl this) \<longrightarrow>
       pinsIdentifierType (map fst (fst (addTagsToAlert this fetch i tagList note'))))"
    unfolding addTagsToAlert_def using op[of "''/tags''"] by simp
  have 11: "pinsIdentifierType (endpoints this (fst (removeTagsFromAlert this fetch i tagList note'))) \<and>
      (CHR ''?'' \<notin> set (this_baseUrl this) \<and> CHR ''#'' \<notin> set (this_baseUrl this) \<longrightarrow>
       pinsIdentifierType (map fst (fst (removeTagsFromAlert this fetch i tagList note'))))"
    unfolding removeTagsFromAlert_def using op[of "''/tags''"] by simp
  from 1 2 3 4 5 6 7 8 9 10 11 show ?thesis
    by simp
qed

text \<open>
  C6, an instance: with the default base URL, listing the notes of \<^verbatim>\<open>A1\<close> with the limit
  50 and removing two tags from \<^verbatim>\<open>A1\<close> pin the identifier type; the former asks for
  \<^verbatim>\<open>/v2/alerts/A1/notes?limit=50&identifierType=id\<close>.
\<close>

theorem identifierType_pinned_witness:
  "CHR ''?'' \<notin> set (this_baseUrl (constructor \<lparr>apiKey = ''k'', baseUrl = None\<rparr>)) \<and>
   CHR ''#'' \<notin> set (this_baseUrl (constructor \<lparr>apiKey = ''k'', baseUrl = None\<rparr>)) \<and>
   pinsIdentifierType (map fst (fst (getAlertNotes (constructor \<lparr>apiKey = ''k'', baseUrl = None\<rparr>)
       (stubRemote \<lparr>status = 200, statusText = ''OK'', text' = Inr [], json' = Inr JNull\<rparr>) ''A1''
       \<lparr>offset' = None, direction = None, limit' = Some (Number ''50''), order' = None\<rparr>))) \<and>
   pinsIdentifierType (map fst (fst (removeTagsFromAlert (constructor \<lparr>apiKey = ''k'', baseUrl = None\<rparr>)
       (stubRemote \<lparr>status = 200, statusText = ''OK'', text' = Inr [], json' = Inr JNull\<rparr>) ''A1''
       [''x'', ''y''] None))) \<and>
   map fst (fst (getAlertNotes (constructor \<lparr>apiKey = ''k'', baseUrl = None\<rparr>)
       (stubRemote \<lparr>status = 200, statusText = ''OK'', text' = Inr [], json' = Inr JNull\<rparr>) ''A1''
       \<lparr>offset' = None, direction = None, limit' = Some (Number ''50''), order' = None\<rparr>)) =
     [''https://api.opsgenie.com/v2/alerts/A1/notes?limit=50&identifierType=id'']"
proof -
  have u: "map fst (fst (getAlertNotes (constructor \<lparr>apiKey = ''k'', baseUrl = None\<rparr>)
       (stubRemote \<lparr>status = 200, statusText = ''OK'', text' = Inr [], json' = Inr JNull\<rparr>) ''A1''
       \<lparr>offset' = None, direction = None, limit' = Some (Number ''50''), order' = None\<rparr>)) =
     [''https://api.opsgenie.com/v2/alerts/A1/notes?limit=50&identifierType=id'']"
    by (simp add: getAlertNotes_def fst_request constructor_def getAlertNotesSearch_def
        appendIfTruthy_def appendIfDefined_def append'_def toString_def formEncode_def formByte_def
        encodeURIComponent_def uriUnreserved_def isAlphaNum_def)
  note T = identifierType_pinned[where this = "constructor \<lparr>apiKey = ''k'', baseUrl = None\<rparr>"
        and fetch = "stubRemote \<lparr>status = 200, statusText = ''OK'', text' = Inr [], json' = Inr JNull\<rparr>"
        and i = "''A1''"
        and params = "\<lparr>offset' = None, direction = None, limit' = Some (Number ''50''), order' = None\<rparr>"
        and tagList = "[''x'', ''y'']" and note' = None]
  have h: "CHR ''?'' \<notin> set (this_baseUrl (constructor \<lparr>apiKey = ''k'', baseUrl = None\<rparr>)) \<and>
           CHR ''#'' \<notin> set (this_baseUrl (constructor \<lparr>apiKey = ''k'', baseUrl = None\<rparr>))"
    using default_baseUrl[of "''k''"] by simp
  from mp[OF conjunct2[OF T] h] h show ?thesis
    unfolding u by simp
qed

subsection \<open>C7: fetching an alert\<close>

text \<open>
  C7. For every identifier \<open>i\<close>, \<^verbatim>\<open>getAlert(i)\<close> issues exactly one request. Its method
  is \<^verbatim>\<open>GET\<close> and it has no body; its URL is the base URL, \<^verbatim>\<open>/v2/alerts/\<close>, the
  percent-encoded form of \<open>i\<close> and \<^verbatim>\<open>?identifierType=id\<close>. The path of that endpoint
  is \<^verbatim>\<open>/v2/alerts/\<close> with the encoded identifier and its query is
  \<^verbatim>\<open>identifierType=id\<close>; the same split holds for the whole URL when the base URL has
  no \<^verbatim>\<open>?\<close> and no \<^verbatim>\<open>#\<close>.
\<close>

theorem getAlert_one_GET:
  "map fst (fst (getAlert this fetch i)) =
     [this_baseUrl this @ ''/v2/alerts/'' @ encodeURIComponent i @ ''?identifierType=id''] \<and>
   map (wireMethod \<circ> snd) (fst (getAlert this fetch i)) = [''GET''] \<and>
   map (wireBody \<circ> snd) (fst (getAlert this fetch i)) = [None] \<and>
   map urlBeforeQuery (endpoints this (fst (getAlert this fetch i))) =
     [''/v2/alerts/'' @ encodeURIComponent i] \<and>
   map urlQuery (endpoints this (fst (getAlert this fetch i))) = [''identifierType=id''] \<and>
   (CHR ''?'' \<notin> set (this_baseUrl this) \<and> CHR ''#'' \<notin> set (this_baseUrl this) \<longrightarrow>
      map (urlBeforeQuery \<circ> fst) (fst (getAlert this fetch i)) =
        [this_baseUrl this @ ''/v2/alerts/'' @ encodeURIComponent i] \<and>
      map (urlQuery \<circ> fst) (fst (getAlert this fetch i)) = [''identifierType=id''])"
proof -
  have pq: "urlBeforeQuery (p @ ''/v2/alerts/'' @ encodeURIComponent i @ ''?identifierType=id'') =
              p @ ''/v2/alerts/'' @ encodeURIComponent i \<and>
            urlQuery (p @ ''/v2/alerts/'' @ encodeURIComponent i @ ''?identifierType=id'') =
              ''identifierType=id''"
    if "CHR ''?'' \<notin> set p" and "CHR ''#'' \<notin> set p" for p
  proof -
    let ?p = "p @ ''/v2/alerts/'' @ encodeURIComponent i"
    have p: "CHR ''?'' \<notin> set ?p" "CHR ''#'' \<notin> set ?p"
      using that by (simp_all add: encodeURIComponent_no_delims)
    have "urlQuery (?p @ ''?'' @ ''identifierType=id'') = ''identifierType=id''"
      by (rule urlQuery_append[OF p]) simp
    moreover have "urlBeforeQuery (?p @ ''?'' @ ''identifierType=id'') = ?p"
      by (rule urlBeforeQuery_append[OF p])
    ultimately show ?thesis by simp
  qed
  have f: "fst (getAlert this fetch i) =
      [(this_baseUrl this @ ''/v2/alerts/'' @ encodeURIComponent i @ ''?identifierType=id'',
        \<lparr>method' = None, body = None,
         headers = Some [(''Authorization'', ''GenieKey '' @ this_apiKey this), (''Content-Type'', ''application/json'')]\<rparr>)]"
    by (simp add: getAlert_def fst_request noOptions_def spread_def)
  have e: "endpoints this (fst (getAlert this fetch i)) =
      [''/v2/alerts/'' @ encodeURIComponent i @ ''?identifierType=id'']"
    by (simp add: getAlert_def endpoints_request)
  show ?thesis
    unfolding e unfolding f using pq[of "[]"] pq[of "this_baseUrl this"]
    by (simp add: wireMethod_def wireBody_def)
qed

text \<open>
  C7, an instance: with the default base URL, the identifier \<^verbatim>\<open>A/1\<close> is fetched from
  \<^verbatim>\<open>https://api.opsgenie.com/v2/alerts/A%2F1?identifierType=id\<close>.
\<close>

theorem getAlert_one_GET_witness:
  "CHR ''?'' \<notin> set (this_baseUrl (constructor \<lparr>apiKey = ''k'', baseUrl = None\<rparr>)) \<and>
   CHR ''#'' \<notin> set (this_baseUrl (constructor \<lparr>apiKey = ''k'', baseUrl = None\<rparr>)) \<and>
   map fst (fst (getAlert (constructor \<lparr>apiKey = ''k'', baseUrl = None\<rparr>)
       (stubRemote \<lparr>status = 200, statusText = ''OK'', text' = Inr [], json' = Inr JNull\<rparr>) ''A/1'')) =
     [''https://api.opsgenie.com/v2/alerts/A%2F1?identifierType=id''] \<and>
   map (wireMethod \<circ> snd) (fst (getAlert (constructor \<lparr>apiKey = ''k'', baseUrl = None\<rparr>)
       (stubRemote \<lparr>status = 200, statusText = ''OK'', text' = Inr [], json' = Inr JNull\<rparr>) ''A/1'')) =
     [''GET''] \<and>
   map (urlBeforeQuery \<circ> fst) (fst (getAlert (constructor \<lparr>apiKey = ''k'', baseUrl = None\<rparr>)
       (stubRemote \<lparr>status = 200, statusText = ''OK'', text' = Inr [], json' = Inr JNull\<rparr>) ''A/1'')) =
     [''https://api.opsgenie.com/v2/alerts/A%2F1''] \<and>
   map (urlQuery \<circ> fst) (fst (getAlert (constructor \<lparr>apiKey = ''k'', baseUrl = None\<rparr>)
       (stubRemote \<lparr>status = 200, statusText = ''OK'', text' = Inr [], json' = Inr JNull\<rparr>) ''A/1'')) =
     [''identifierType=id'']"
proof -
  let ?c = "constructor \<lparr>apiKey = ''k'', baseUrl = None\<rparr>"
  have e: "encodeURIComponent ''A/1'' = ''A%2F1''"
    by (simp add: encodeURIComponent_def uriUnreserved_def isAlphaNum_def percentByte_def hexDigit_def)
  have b: "this_baseUrl ?c = ''https://api.opsgenie.com''"
    by (simp add: constructor_def)
  note T = getAlert_one_GET[of ?c "stubRemote \<lparr>status = 200, statusText = ''OK'', text' = Inr [], json' = Inr JNull\<rparr>" "''A/1''"]
  have h: "CHR ''?'' \<notin> set (this_baseUrl ?c) \<and> CHR ''#'' \<notin> set (this_baseUrl ?c)"
    using default_baseUrl[of "''k''"] by simp
  show ?thesis
    using T h by (simp add: e b)
qed

subsection \<open>C8: from the tool to the resource and back\<close>

text \<open>
  C8. Let a stub remote answer with a success whose document is the alert \<^verbatim>\<open>A1\<close> with
  the message \<open>m\<close>, and let the URL parser leave \<^verbatim>\<open>opsgenie://alerts/A1\<close> as it is.
  Then the tool \<^verbatim>\<open>get-alert-details\<close>, called with the identifier \<^verbatim>\<open>A1\<close>, issues the
  request of \<^verbatim>\<open>getAlert\<close> for \<^verbatim>\<open>A1\<close> and returns, unflagged, a text block that contains
  \<open>m\<close> and a link to the resource \<^verbatim>\<open>opsgenie://alerts/A1\<close>. Reading that URI resolves
  to the resource \<^verbatim>\<open>alert-details\<close> (no resource with a fixed URI has it, and the template
  of \<^verbatim>\<open>alert-details\<close> is the first to match) with the variable \<^verbatim>\<open>alertId\<close> bound to
  \<^verbatim>\<open>A1\<close>; its handler issues the request that \<^verbatim>\<open>getAlert\<close> issues for \<^verbatim>\<open>A1\<close> and
  returns the document under the same URI.
\<close>

theorem get_alert_details_round_trip:
  assumes "ok response" and "json' response = Inr \<lparr> requestId = rid, data = alert \<rparr>"
    and "id' alert = ''A1''" and "message alert = Some m"
    and "parseURL ''opsgenie://alerts/A1'' = Some ''opsgenie://alerts/A1''"
  shows "toolName GetAlertDetails = ''get-alert-details'' \<and>
         getAlertDetailsTool client (stubRemote response) ''A1'' =
           (fst (getAlert client (stubRemote response) ''A1''),
            \<lparr> content =
                [TextContent (formatAlertDetails alert),
                 ResourceLink ''opsgenie://alerts/A1'' ''Alert A1''
                   ''Detailed JSON data for alert A1'' ''application/json''],
              isError = None \<rparr>) \<and>
         sublist m (formatAlertDetails alert) \<and>
         readResource parseURL ''opsgenie://alerts/A1'' =
           Inr (''opsgenie://alerts/A1'', AlertDetails, [(''alertId'', Single ''A1'')]) \<and>
         readAlertDetails parseURL stringify client (stubRemote response) ''opsgenie://alerts/A1'' =
           Some (fst (getAlert client (stubRemote response) ''A1''),
                 Inr [ResourceContents ''opsgenie://alerts/A1'' (stringify alert) ''application/json''])"
proof -
  have g: "snd (getAlert client (stubRemote response) ''A1'') = Inr \<lparr> requestId = rid, data = alert \<rparr>"
    using assms(1,2) by (simp add: getAlert_def snd_request_stub)
  have t: "getAlertDetailsTool client (stubRemote response) ''A1'' =
           (fst (getAlert client (stubRemote response) ''A1''),
            \<lparr> content =
                [TextContent (formatAlertDetails alert),
                 ResourceLink ''opsgenie://alerts/A1'' ''Alert A1''
                   ''Detailed JSON data for alert A1'' ''application/json''],
              isError = None \<rparr>)"
    using g assms(3)
    by (cases "getAlert client (stubRemote response) ''A1''")
      (simp add: getAlertDetailsTool_def toolHandler_def)
  have "alert = alert\<lparr>message := Some m\<rparr>"
    using assms(4) by simp
  then have s: "sublist m (formatAlertDetails alert)"
    using sublist_message[of m alert] by simp
  have m: "readResource parseURL ''opsgenie://alerts/A1'' =
           Inr (''opsgenie://alerts/A1'', AlertDetails, [(''alertId'', Single ''A1'')])"
    using assms(5) by (rule readResource_A1[where parseURL = parseURL])
  have r: "readAlertDetails parseURL stringify client (stubRemote response) ''opsgenie://alerts/A1'' =
           Some (fst (getAlert client (stubRemote response) ''A1''),
                 Inr [ResourceContents ''opsgenie://alerts/A1'' (stringify alert) ''application/json''])"
    unfolding readAlertDetails_def m
    using g
    by (cases "getAlert client (stubRemote response) ''A1''")
      (simp add: alertDetailsResource_def firstValue_def resourceHandler_def)
  have n: "toolName GetAlertDetails = ''get-alert-details''"
    by simp
  show ?thesis
    by (intro conjI) (rule n t s m r)+
qed

text \<open>
  C8, an instance: an alert \<^verbatim>\<open>A1\<close> with the message \<^verbatim>\<open>CPU high\<close> and a parser that
  leaves every URI as it is. The link is \<^verbatim>\<open>opsgenie://alerts/A1\<close>, which resolves to
  \<^verbatim>\<open>alert-details\<close> with the variable \<^verbatim>\<open>A1\<close>, and reading it asks the remote for
  \<^verbatim>\<open>/v2/alerts/A1?identifierType=id\<close>.
\<close>

theorem get_alert_details_round_trip_witness:
  "ok \<lparr>status = 200, statusText = ''OK'', text' = Inr [],
       json' = Inr \<lparr>requestId = ''r1'', data = \<lparr>id' = ''A1'', message = Some ''CPU high'', description = None,
         status' = Some ''open'', priority = Some ''P1'', createdAt = None, updatedAt = None, owner = None,
         tags = None, responders = None, acknowledged = None, isSeen = None, snoozed = None\<rparr>\<rparr>\<rparr> \<and>
   snd (getAlertDetailsTool (constructor \<lparr>apiKey = ''k'', baseUrl = None\<rparr>)
     (stubRemote \<lparr>status = 200, statusText = ''OK'', text' = Inr [],
       json' = Inr \<lparr>requestId = ''r1'', data = \<lparr>id' = ''A1'', message = Some ''CPU high'', description = None,
         status' = Some ''open'', priority = Some ''P1'', createdAt = None, updatedAt = None, owner = None,
         tags = None, responders = None, acknowledged = None, isSeen = None, snoozed = None\<rparr>\<rparr>\<rparr>) ''A1'') =
     \<lparr> content =
         [TextContent (formatAlertDetails \<lparr>id' = ''A1'', message = Some ''CPU high'', description = None,
            status' = Some ''open'', priority = Some ''P1'', createdAt = None, updatedAt = None, owner = None,
            tags = None, responders = None, acknowledged = None, isSeen = None, snoozed = None\<rparr>),
          ResourceLink ''opsgenie://alerts/A1'' ''Alert A1'' ''Detailed JSON data for alert A1'' ''application/json''],
       isError = None \<rparr> \<and>
   sublist ''CPU high'' (formatAlertDetails \<lparr>id' = ''A1'', message = Some ''CPU high'', description = None,
            status' = Some ''open'', priority = Some ''P1'', createdAt = None, updatedAt = None, owner = None,
            tags = None, responders = None, acknowledged = None, isSeen = None, snoozed = None\<rparr>) \<and>
   readResource Some ''opsgenie://alerts/A1'' =
     Inr (''opsgenie://alerts/A1'', AlertDetails, [(''alertId'', Single ''A1'')]) \<and>
   map_option (map fst \<circ> fst) (readAlertDetails Some (\<lambda>alert. ''{}'') (constructor \<lparr>apiKey = ''k'', baseUrl = None\<rparr>)
     (stubRemote \<lparr>status = 200, statusText = ''OK'', text' = Inr [],
       json' = Inr \<lparr>requestId = ''r1'', data = \<lparr>id' = ''A1'', message = Some ''CPU high'', description = None,
         status' = Some ''open'', priority = Some ''P1'', createdAt = None, updatedAt = None, owner = None,
         tags = None, responders = None, acknowledged = None, isSeen = None, snoozed = None\<rparr>\<rparr>\<rparr>)
     ''opsgenie://alerts/A1'') = Some [''https://api.opsgenie.com/v2/alerts/A1?identifierType=id'']"
proof -
  let ?a = "\<lparr>id' = ''A1'', message = Some ''CPU high'', description = None,
         status' = Some ''open'', priority = Some ''P1'', createdAt = None, updatedAt = None, owner = None,
         tags = None, responders = None, acknowledged = None, isSeen = None, snoozed = None\<rparr>"
  let ?r = "\<lparr>status = 200, statusText = ''OK'', text' = Inr [], json' = Inr \<lparr>requestId = ''r1'', data = ?a\<rparr>\<rparr>"
  let ?c = "constructor \<lparr>apiKey = ''k'', baseUrl = None\<rparr>"
  have h1: "ok ?r" by (simp add: ok_def)
  have h2: "json' ?r = Inr \<lparr>requestId = ''r1'', data = ?a\<rparr>" by simp
  have h3: "id' ?a = ''A1''" by simp
  have h4: "message ?a = Some ''CPU high''" by simp
  have h5: "Some ''opsgenie://alerts/A1'' = Some ''opsgenie://alerts/A1''" by simp
  have u: "map fst (fst (getAlert ?c (stubRemote ?r) ''A1'')) = [''https://api.opsgenie.com/v2/alerts/A1?identifierType=id'']"
    by (simp add: getAlert_def fst_request constructor_def encodeURIComponent_def uriUnreserved_def isAlphaNum_def)
  note T = get_alert_details_round_trip[where parseURL = Some and client = ?c and
      stringify = "\<lambda>alert. ''{}''", OF h1 h2 h3 h4 h5]
  show ?thesis
    using T h1 u by simp
qed

subsection \<open>C9: only a string body is sent\<close>

text \<open>
  C9. For every options value, the one request that \<^verbatim>\<open>request\<close> issues sends a body
  exactly when the options hold a body that is a string, and then sends that string; a
  body that is not a string is removed from the options and nothing is sent for it.
\<close>

theorem request_body_only_string:
  "map (wireBody \<circ> snd) (fst (request this fetch endpoint options)) =
     [case body options of Some (BodyString s) \<Rightarrow> Some s | _ \<Rightarrow> None]"
  by (simp add: fst_request wireBody_def split: option.splits BodyInit.splits)

subsection \<open>C10: a thrown value that is not an Error\<close>

text \<open>
  C10. When the value a tool handler catches is not an instance of \<^verbatim>\<open>Error\<close>, the handler
  of every tool returns a flagged result whose one text block is the label of the tool
  followed by \<^verbatim>\<open>Unknown error\<close>, the same result for any two such values; the message
  of what was caught appears only when it is an \<^verbatim>\<open>Error\<close>. So the tool
  \<^verbatim>\<open>get-alert-details\<close> answers \<^verbatim>\<open>Error fetching alert details: Unknown error\<close> when
  \<^verbatim>\<open>fetch\<close> rejects with such a value, and the resource \<^verbatim>\<open>alert-details\<close> throws
  \<^verbatim>\<open>Failed to fetch alert details: Unknown error\<close>.
\<close>

theorem non_error_is_unknown:
  "toolHandler tool (Inl (NonError v)) =
     \<lparr> content = [TextContent (errorLabel tool @ ''Unknown error'')], isError = Some True \<rparr> \<and>
   toolHandler tool (Inl (NonError v)) = toolHandler tool (Inl (NonError w)) \<and>
   toolHandler tool (Inl (Error m)) =
     \<lparr> content = [TextContent (errorLabel tool @ m)], isError = Some True \<rparr> \<and>
   snd (getAlertDetailsTool client (failingRemote (NonError v)) identifier) =
     \<lparr> content = [TextContent ''Error fetching alert details: Unknown error''], isError = Some True \<rparr> \<and>
   snd (alertDetailsResource stringify client (failingRemote (NonError v)) href (Some (Single (c # cs)))) =
     Inl (Error ''Failed to fetch alert details: Unknown error'')"
proof -
  have g: "snd (getAlert client (failingRemote (NonError v) :: GetAlertResponse fetch) i) = Inl (NonError v)" for i
    by (simp add: getAlert_def snd_request_failing)
  show ?thesis
    using snd_getAlertDetailsTool_error[OF g] snd_alertDetailsResource_error[OF _ g, of "c # cs"]
    by (simp add: toolHandler_def toolCatch_def errorMessage_def)
qed

end
